theory Spec2Isabelle
  imports Main "HOL-Library.Word"
begin

section \<open>JavaScript values\<close>

text \<open>
  A JavaScript string is a sequence of UTF-16 code units. Literals of the source that
  are plain ASCII are written with \<open>js\<close>; the two emoji of the notification text are
  given by their code unit.
\<close>

type_synonym jschar = "16 word"
type_synonym jsstring = "jschar list"

definition js :: "string \<Rightarrow> jsstring" where
  "js s = map (\<lambda>c. of_char c) s"

text \<open>
  The number values the program computes with are integer valued: a double that holds an
  integer, \<open>+Infinity\<close> (the result of converting an integer beyond the range of doubles)
  and \<open>NaN\<close>.
\<close>

datatype jsnum = Finite int | Infinity | NaN

text \<open>The comparison \<open>x > 0\<close> on number values.\<close>

fun gt0 :: "jsnum \<Rightarrow> bool" where
  "gt0 (Finite i) = (0 < i)"
| "gt0 Infinity = True"
| "gt0 NaN = False"

text \<open>
  A \<open>Date\<close> object holds a time value, in milliseconds since 1 January 1970 UTC, or is
  invalid. Time values are integers of magnitude at most \<open>8.64e15\<close>, which doubles hold
  exactly, so the arithmetic on them is integer arithmetic.
\<close>

datatype jsdate = DateValue int | InvalidDate

text \<open>
  Exceptions: \<open>Error msg\<close> is \<open>new Error(msg)\<close> thrown by the program itself,
  \<open>External msg\<close> is anything thrown by a collaborator (the browser driver, the HTTP
  client, the JavaScript runtime).
\<close>

datatype error = Error jsstring | External jsstring

subsection \<open>String operations\<close>

text \<open>\<open>s.includes(p)\<close>: \<open>p\<close> occurs in \<open>s\<close> as a contiguous run of code units.\<close>

fun str_includes :: "jsstring \<Rightarrow> jsstring \<Rightarrow> bool" where
  "str_includes [] p = (p = [])"
| "str_includes (c # cs) p = (take (length p) (c # cs) = p \<or> str_includes cs p)"

text \<open>
  The character classes of the regular expressions. \<open>\d\<close> is \<open>[0-9]\<close>; \<open>\s\<close> is the
  white space and line terminator code units of ECMAScript.
\<close>

definition is_digit :: "jschar \<Rightarrow> bool" where
  "is_digit c = (0x30 \<le> c \<and> c \<le> 0x39)"

definition is_space :: "jschar \<Rightarrow> bool" where
  "is_space c =
     (c = 0x09 \<or> c = 0x0A \<or> c = 0x0B \<or> c = 0x0C \<or> c = 0x0D \<or> c = 0x20 \<or> c = 0xA0
      \<or> c = 0x1680 \<or> (0x2000 \<le> c \<and> c \<le> 0x200A) \<or> c = 0x2028 \<or> c = 0x2029
      \<or> c = 0x202F \<or> c = 0x205F \<or> c = 0x3000 \<or> c = 0xFEFF)"

text \<open>\<open>s.replace(/\s+/g, '-')\<close>: every maximal run of white space becomes one hyphen.\<close>

function replace_ws :: "jsstring \<Rightarrow> jsstring" where
  "replace_ws [] = []"
| "replace_ws (c # cs) =
     (if is_space c then 0x2D # replace_ws (dropWhile is_space cs) else c # replace_ws cs)"
  by pat_completeness auto
termination
  by (relation "measure length") (auto simp: length_dropWhile_le less_Suc_eq_le)

subsection \<open>The pattern \<open>/(\d+)\s+desk/i\<close>\<close>

text \<open>
  Under the flag \<open>i\<close> (without \<open>u\<close>) a pattern letter matches a code unit with the same
  upper-case form; a code unit of 128 or more is never identified with an ASCII letter,
  so only the two ASCII cases of each letter of \<open>desk\<close> match.
\<close>

definition ci_eq :: "jschar \<Rightarrow> jschar \<Rightarrow> bool" where
  "ci_eq c lower = (c = lower \<or> c = lower - 0x20)"

fun desk_here :: "jsstring \<Rightarrow> bool" where
  "desk_here (d # e # s # k # rest) =
     (ci_eq d 0x64 \<and> ci_eq e 0x65 \<and> ci_eq s 0x73 \<and> ci_eq k 0x6B)"
| "desk_here _ = False"

text \<open>
  A match that starts at the head of \<open>s\<close>. Both quantifiers are greedy, and backtracking
  into either cannot help: after a shorter run of digits the next code unit is a digit,
  not white space, and after a shorter run of white space the next code unit is white
  space, not a letter. So the match takes the whole run of digits, the whole run of white
  space, and needs \<open>desk\<close> next. The result is capture group 1.
\<close>

definition match_at :: "jsstring \<Rightarrow> jsstring option" where
  "match_at s =
     (let ds = takeWhile is_digit s;
          r1 = dropWhile is_digit s;
          ws = takeWhile is_space r1;
          r2 = dropWhile is_space r1
      in if ds \<noteq> [] \<and> ws \<noteq> [] \<and> desk_here r2 then Some ds else None)"

text \<open>
  \<open>text.match(/(\d+)\s+desk/i)\<close>: the leftmost match, tried at each start position in
  turn; \<open>None\<close> is the \<open>null\<close> of no match, \<open>Some ds\<close> gives \<open>desksMatch[1]\<close>.
\<close>

fun desks_match :: "jsstring \<Rightarrow> jsstring option" where
  "desks_match [] = None"
| "desks_match (c # cs) =
     (case match_at (c # cs) of Some ds \<Rightarrow> Some ds | None \<Rightarrow> desks_match cs)"

subsection \<open>\<open>parseInt(ds, 10)\<close>\<close>

definition digit_val :: "jschar \<Rightarrow> nat" where
  "digit_val c = unat c - 48"

definition dec_val :: "jsstring \<Rightarrow> nat" where
  "dec_val ds = foldl (\<lambda>a c. 10 * a + digit_val c) 0 ds"

fun bit_length :: "nat \<Rightarrow> nat" where
  "bit_length n = (if n = 0 then 0 else Suc (bit_length (n div 2)))"

declare bit_length.simps [simp del]

text \<open>
  The number value of a mathematical integer \<open>n \<ge> 0\<close>: \<open>n\<close> itself when it fits the 53
  bits of a double's significand, otherwise \<open>n\<close> rounded to 53 significant bits (to
  nearest, ties to even), and \<open>+Infinity\<close> when the rounded value reaches \<open>2 ^ 1024\<close>.
\<close>

definition to_double :: "nat \<Rightarrow> jsnum" where
  "to_double n =
     (let e = bit_length n in
      if e \<le> 53 then Finite (int n)
      else
        let sh = e - 53;
            q = n div 2 ^ sh;
            r = n mod 2 ^ sh;
            half = 2 ^ (sh - 1);
            q' = (if half < r \<or> (r = half \<and> odd q) then q + 1 else q);
            v = q' * 2 ^ sh
        in if 2 ^ 1024 \<le> v then Infinity else Finite (int v))"

text \<open>
  \<open>parseInt(s, 10)\<close> on a string that starts with a digit or is empty (the program only
  passes capture group 1 of the pattern above, so leading white space and signs do not
  occur): the leading digits are read as a decimal integer and converted to a number;
  with no leading digit the result is \<open>NaN\<close>.
\<close>

definition parseInt10 :: "jsstring \<Rightarrow> jsnum" where
  "parseInt10 s =
     (let ds = takeWhile is_digit s in if ds = [] then NaN else to_double (dec_val ds))"

section \<open>The program's collaborators\<close>

subsection \<open>Configuration\<close>

text \<open>
  The record \<open>Config\<close> of \<open>config.ts\<close>. An optional field is an \<open>option\<close>; the timeouts
  and the slow-motion delay are integers.
\<close>

record config =
  email :: jsstring
  password :: jsstring
  location :: jsstring
  baseUrl :: jsstring
  loginUrl :: jsstring
  bookingUrl :: jsstring
  screenshotsDir :: jsstring
  headless :: bool
  slowMo :: int
  defaultTimeout :: int
  loginTimeout :: int
  logoutAfterCompletion :: bool
  slackWebhookUrl :: "jsstring option"
  enableScreenshots :: bool
  windowPosition :: "(jsnum \<times> jsnum) option"
  useSecondDisplay :: bool

subsection \<open>The JavaScript runtime\<close>

text \<open>
  Library functions whose results the program only copies into strings: the calendar
  rendering of a valid time value by \<open>toISOString\<close>, the parts produced by
  \<open>Intl.DateTimeFormat('en-US', ...).formatToParts\<close> (pairs of a part type and its value),
  \<open>formatDate\<close>'s \<open>new Date(dateStr).toLocaleDateString('en-US', ...)\<close>, the conversion
  of a number to a string, and \<open>toLowerCase\<close>. They are parameters of the model. So is the
  local time zone: \<open>rt_localTZA t isUTC\<close> is the offset \<open>LocalTZA(t, isUTC)\<close> of ECMAScript,
  in milliseconds: the offset in force at the UTC time \<open>t\<close> when \<open>isUTC\<close> holds, and the
  one by which the local time \<open>t\<close> is read otherwise (for a local time that a transition
  skips or repeats, the offset before the transition).
\<close>

record runtime =
  rt_isoString :: "int \<Rightarrow> jsstring"
  rt_formatToParts :: "int \<Rightarrow> (jsstring \<times> jsstring) list"
  rt_longDate :: "jsstring \<Rightarrow> jsstring"
  rt_numToString :: "jsnum \<Rightarrow> jsstring"
  rt_toLowerCase :: "jsstring \<Rightarrow> jsstring"
  rt_localTZA :: "int \<Rightarrow> bool \<Rightarrow> int"

subsection \<open>The browser driver and the HTTP client\<close>

text \<open>
  An element handle is a number. What a function passed to \<open>page.evaluate\<close> can read of
  the document is a \<open>dom_view\<close>: the text content of an element (or \<open>null\<close>), its
  closest ancestor matching a selector, the first descendant matching a selector, and
  the value of an input.
\<close>

type_synonym elem = nat

record dom_view =
  dv_textContent :: "elem \<Rightarrow> jsstring option"
  dv_closest :: "elem \<Rightarrow> jsstring \<Rightarrow> elem option"
  dv_querySelector :: "elem \<Rightarrow> jsstring \<Rightarrow> elem option"
  dv_value :: "elem \<Rightarrow> jsstring"

text \<open>
  Every interaction with the outside is an operation of the driver on a world \<open>'w\<close>,
  which the model leaves abstract: the browser, the site it shows, the clock and the
  network. An operation returns its result, or the exception it throws, and the world
  after it. Nothing is assumed of the operations, so a statement about every driver and
  every world is a statement about every page and every behaviour of the network.
\<close>

record 'w driver =
  d_launch :: "bool \<Rightarrow> jsstring list \<Rightarrow> int \<Rightarrow> 'w \<Rightarrow> (error + unit) \<times> 'w"
  d_newPage :: "'w \<Rightarrow> (error + unit) \<times> 'w"
  d_close :: "'w \<Rightarrow> (error + unit) \<times> 'w"
  d_setViewport :: "int \<Rightarrow> int \<Rightarrow> 'w \<Rightarrow> (error + unit) \<times> 'w"
  d_goto :: "jsstring \<Rightarrow> 'w \<Rightarrow> (error + unit) \<times> 'w"
  d_url :: "'w \<Rightarrow> (error + jsstring) \<times> 'w"
  d_queryAll :: "jsstring \<Rightarrow> 'w \<Rightarrow> (error + elem list) \<times> 'w"
  d_query :: "jsstring \<Rightarrow> 'w \<Rightarrow> (error + elem option) \<times> 'w"
  d_waitForSelector :: "jsstring \<Rightarrow> int \<Rightarrow> 'w \<Rightarrow> (error + unit) \<times> 'w"
  d_waitForText :: "jsstring \<Rightarrow> int \<Rightarrow> 'w \<Rightarrow> (error + unit) \<times> 'w"
  d_evaluate :: "elem \<Rightarrow> 'w \<Rightarrow> (error + dom_view) \<times> 'w"
  d_clearValue :: "elem \<Rightarrow> 'w \<Rightarrow> (error + unit) \<times> 'w"
  d_click :: "elem \<Rightarrow> 'w \<Rightarrow> (error + unit) \<times> 'w"
  d_clickNav :: "elem \<Rightarrow> 'w \<Rightarrow> (error + unit) \<times> 'w"
  d_type :: "elem \<Rightarrow> jsstring \<Rightarrow> 'w \<Rightarrow> (error + unit) \<times> 'w"
  d_press :: "elem \<Rightarrow> jsstring \<Rightarrow> 'w \<Rightarrow> (error + unit) \<times> 'w"
  d_viewport :: "'w \<Rightarrow> (error + (int \<times> int) option) \<times> 'w"
  d_screenshot :: "jsstring \<Rightarrow> 'w \<Rightarrow> (error + unit) \<times> 'w"
  d_sleep :: "int \<Rightarrow> 'w \<Rightarrow> 'w"
  d_now :: "'w \<Rightarrow> int"
  d_post :: "jsstring \<Rightarrow> jsstring \<Rightarrow> 'w \<Rightarrow> (error + int) \<times> 'w"

text \<open>
  The calls the program makes are recorded, in order, each with whether it returned
  (\<open>True\<close>) or threw (\<open>False\<close>).
\<close>

datatype call =
    Launch bool "jsstring list" int
  | NewPage
  | CloseBrowser
  | SetViewport int int
  | Goto jsstring
  | Url
  | QueryAll jsstring
  | Query jsstring
  | WaitForSelector jsstring int
  | WaitForText jsstring int
  | Evaluate elem
  | ClearValue elem
  | Click elem
  | ClickNav elem
  | Type elem jsstring
  | Press elem jsstring
  | Viewport
  | Screenshot jsstring
  | Sleep int
  | Post jsstring jsstring

record 'w state =
  world :: 'w
  trace :: "(call \<times> bool) list"

text \<open>The files written by \<open>page.screenshot\<close>, and the HTTP requests sent, of a trace.\<close>

fun screenshots :: "(call \<times> bool) list \<Rightarrow> jsstring list" where
  "screenshots [] = []"
| "screenshots ((Screenshot path, True) # cs) = path # screenshots cs"
| "screenshots (c # cs) = screenshots cs"


section \<open>Asynchronous functions as state transformers\<close>

text \<open>
  An \<open>async\<close> function is run to completion from a state: it returns a value (\<open>Inr\<close>) or
  throws (\<open>Inl\<close>), and leaves a state. The run is sequential (every call is awaited), so
  \<open>bnd\<close> is \<open>await\<close> followed by the rest, \<open>try_catch\<close> is \<open>try { } catch (e) { }\<close> and
  \<open>try_finally\<close> is \<open>try { } finally { }\<close>. Console output is not part of the state: the
  program never reads it back and it changes no result.
\<close>

type_synonym ('a, 'w) prog = "'w state \<Rightarrow> (error + 'a) \<times> 'w state"

definition ret :: "'a \<Rightarrow> ('a, 'w) prog" where
  "ret x = (\<lambda>s. (Inr x, s))"

definition throw :: "error \<Rightarrow> ('a, 'w) prog" where
  "throw e = (\<lambda>s. (Inl e, s))"

definition bnd :: "('a, 'w) prog \<Rightarrow> ('a \<Rightarrow> ('b, 'w) prog) \<Rightarrow> ('b, 'w) prog" where
  "bnd m f = (\<lambda>s. case m s of (Inl e, s') \<Rightarrow> (Inl e, s') | (Inr x, s') \<Rightarrow> f x s')"

definition thn :: "('a, 'w) prog \<Rightarrow> ('b, 'w) prog \<Rightarrow> ('b, 'w) prog" where
  "thn m n = bnd m (\<lambda>_. n)"

definition try_catch :: "('a, 'w) prog \<Rightarrow> (error \<Rightarrow> ('a, 'w) prog) \<Rightarrow> ('a, 'w) prog" where
  "try_catch m h = (\<lambda>s. case m s of (Inl e, s') \<Rightarrow> h e s' | (Inr x, s') \<Rightarrow> (Inr x, s'))"

definition try_finally :: "('a, 'w) prog \<Rightarrow> (unit, 'w) prog \<Rightarrow> ('a, 'w) prog" where
  "try_finally m fin =
     (\<lambda>s. case m s of (r, s') \<Rightarrow>
        (case fin s' of (Inl e, s'') \<Rightarrow> (Inl e, s'') | (Inr _, s'') \<Rightarrow> (r, s'')))"

text \<open>A synchronous computation that may throw, run inside an asynchronous function.\<close>

definition of_result :: "error + 'a \<Rightarrow> ('a, 'w) prog" where
  "of_result r = (\<lambda>s. (r, s))"

text \<open>A call of the driver: the world moves on and the call is recorded.\<close>

definition perform :: "call \<Rightarrow> ('w \<Rightarrow> (error + 'a) \<times> 'w) \<Rightarrow> ('a, 'w) prog" where
  "perform c op =
     (\<lambda>s. case op (world s) of (r, w') \<Rightarrow>
        (r, \<lparr>world = w', trace = trace s @ [(c, \<not> isl r)]\<rparr>))"

definition launch :: "'w driver \<Rightarrow> bool \<Rightarrow> jsstring list \<Rightarrow> int \<Rightarrow> (unit, 'w) prog" where
  "launch drv h args slow = perform (Launch h args slow) (d_launch drv h args slow)"

definition newPage :: "'w driver \<Rightarrow> (unit, 'w) prog" where
  "newPage drv = perform NewPage (d_newPage drv)"

definition closeBrowser :: "'w driver \<Rightarrow> (unit, 'w) prog" where
  "closeBrowser drv = perform CloseBrowser (d_close drv)"

definition setViewport :: "'w driver \<Rightarrow> int \<Rightarrow> int \<Rightarrow> (unit, 'w) prog" where
  "setViewport drv w h = perform (SetViewport w h) (d_setViewport drv w h)"

definition goto :: "'w driver \<Rightarrow> jsstring \<Rightarrow> (unit, 'w) prog" where
  "goto drv u = perform (Goto u) (d_goto drv u)"

definition url :: "'w driver \<Rightarrow> (jsstring, 'w) prog" where
  "url drv = perform Url (d_url drv)"

definition queryAll :: "'w driver \<Rightarrow> jsstring \<Rightarrow> (elem list, 'w) prog" where
  "queryAll drv sel = perform (QueryAll sel) (d_queryAll drv sel)"

definition query :: "'w driver \<Rightarrow> jsstring \<Rightarrow> (elem option, 'w) prog" where
  "query drv sel = perform (Query sel) (d_query drv sel)"

definition waitForSelector :: "'w driver \<Rightarrow> jsstring \<Rightarrow> int \<Rightarrow> (unit, 'w) prog" where
  "waitForSelector drv sel t = perform (WaitForSelector sel t) (d_waitForSelector drv sel t)"

definition waitForText :: "'w driver \<Rightarrow> jsstring \<Rightarrow> int \<Rightarrow> (unit, 'w) prog" where
  "waitForText drv txt t = perform (WaitForText txt t) (d_waitForText drv txt t)"

text \<open>\<open>page.evaluate(f, el)\<close> for a function \<open>f\<close> that only reads the document.\<close>

definition evaluate :: "'w driver \<Rightarrow> (dom_view \<Rightarrow> elem \<Rightarrow> 'a) \<Rightarrow> elem \<Rightarrow> ('a, 'w) prog" where
  "evaluate drv f el = bnd (perform (Evaluate el) (d_evaluate drv el)) (\<lambda>dv. ret (f dv el))"

definition clearValue :: "'w driver \<Rightarrow> elem \<Rightarrow> (unit, 'w) prog" where
  "clearValue drv el = perform (ClearValue el) (d_clearValue drv el)"

definition click :: "'w driver \<Rightarrow> elem \<Rightarrow> (unit, 'w) prog" where
  "click drv el = perform (Click el) (d_click drv el)"

text \<open>
  \<open>Promise.all([page.waitForNavigation(...).catch(() => {}), el.click()])\<close>: the wait for
  the navigation cannot reject, so the pair rejects exactly when the click does.
\<close>

definition clickNav :: "'w driver \<Rightarrow> elem \<Rightarrow> (unit, 'w) prog" where
  "clickNav drv el = perform (ClickNav el) (d_clickNav drv el)"

definition typeText :: "'w driver \<Rightarrow> elem \<Rightarrow> jsstring \<Rightarrow> (unit, 'w) prog" where
  "typeText drv el v = perform (Type el v) (d_type drv el v)"

definition press :: "'w driver \<Rightarrow> elem \<Rightarrow> jsstring \<Rightarrow> (unit, 'w) prog" where
  "press drv el k = perform (Press el k) (d_press drv el k)"

definition viewport :: "'w driver \<Rightarrow> ((int \<times> int) option, 'w) prog" where
  "viewport drv = perform Viewport (d_viewport drv)"

definition screenshot :: "'w driver \<Rightarrow> jsstring \<Rightarrow> (unit, 'w) prog" where
  "screenshot drv path = perform (Screenshot path) (d_screenshot drv path)"

definition post :: "'w driver \<Rightarrow> jsstring \<Rightarrow> jsstring \<Rightarrow> (int, 'w) prog" where
  "post drv u payload = perform (Post u payload) (d_post drv u payload)"

text \<open>
  \<open>new Date()\<close>: the time value shown by the clock of the world, read without any call
  to the driver.
\<close>

definition now :: "'w driver \<Rightarrow> (int, 'w) prog" where
  "now drv = (\<lambda>s. (Inr (d_now drv (world s)), s))"

section \<open>\<open>utils.ts\<close>\<close>

text \<open>\<open>wait(ms)\<close>: a timer; the world moves on while the program sleeps.\<close>

definition wait :: "'w driver \<Rightarrow> int \<Rightarrow> (unit, 'w) prog" where
  "wait drv ms =
     (\<lambda>s. (Inr (), \<lparr>world = d_sleep drv ms (world s), trace = trace s @ [(Sleep ms, True)]\<rparr>))"

text \<open>
  \<open>takeScreenshot(page, filename)\<close>: skipped when screenshots are disabled; skipped when
  the page has no viewport or one of no positive size; an exception of the driver is
  caught and only logged.
\<close>

definition takeScreenshot :: "config \<Rightarrow> 'w driver \<Rightarrow> jsstring \<Rightarrow> (unit, 'w) prog" where
  "takeScreenshot cfg drv filename =
     (if \<not> enableScreenshots cfg then ret ()
      else
        try_catch
          (bnd (viewport drv) (\<lambda>vp.
             case vp of
               None \<Rightarrow> ret ()
             | Some (width, height) \<Rightarrow>
                 if width \<le> 0 \<or> height \<le> 0 then ret ()
                 else screenshot drv (screenshotsDir cfg @ js ''/'' @ filename @ js ''.png'')))
          (\<lambda>e. ret ()))"

text \<open>\<open>formatDate(dateStr)\<close>, used for the notification text.\<close>

definition formatDate :: "runtime \<Rightarrow> jsstring \<Rightarrow> jsstring" where
  "formatDate rt dateStr = rt_longDate rt dateStr"

section \<open>Dates\<close>

text \<open>\<open>date.toISOString()\<close> throws a \<open>RangeError\<close> on an invalid date.\<close>

definition toISOString :: "runtime \<Rightarrow> jsdate \<Rightarrow> error + jsstring" where
  "toISOString rt d =
     (case d of
        InvalidDate \<Rightarrow> Inl (External (js ''RangeError: Invalid time value''))
      | DateValue t \<Rightarrow> Inr (rt_isoString rt t))"

text \<open>\<open>formatDateToString(date)\<close>: \<open>date.toISOString().split('T')[0]\<close>.\<close>

definition formatDateToString :: "runtime \<Rightarrow> jsdate \<Rightarrow> error + jsstring" where
  "formatDateToString rt d =
     (case toISOString rt d of
        Inl e \<Rightarrow> Inl e
      | Inr isoStr \<Rightarrow> Inr (takeWhile (\<lambda>c. c \<noteq> 0x54) isoStr))"

text \<open>\<open>parts.find(part => part.type === ty)?.value || ''\<close>.\<close>

definition part_value :: "(jsstring \<times> jsstring) list \<Rightarrow> jsstring \<Rightarrow> jsstring" where
  "part_value parts ty = (case find (\<lambda>p. fst p = ty) parts of None \<Rightarrow> [] | Some p \<Rightarrow> snd p)"

text \<open>\<open>formatDateForInput(date)\<close>; \<open>formatToParts\<close> throws on an invalid date.\<close>

definition formatDateForInput :: "runtime \<Rightarrow> jsdate \<Rightarrow> error + jsstring" where
  "formatDateForInput rt d =
     (case d of
        InvalidDate \<Rightarrow> Inl (External (js ''RangeError: Invalid time value''))
      | DateValue t \<Rightarrow>
          (let parts = rt_formatToParts rt t;
               month = part_value parts (js ''month'');
               day = part_value parts (js ''day'');
               year = part_value parts (js ''year'')
           in Inr (month @ js '' '' @ day @ js '', '' @ year)))"

text \<open>
  The date arithmetic of ECMAScript. \<open>LocalTime\<close> and \<open>UTC\<close> convert between UTC and
  local time values; \<open>TimeClip\<close> makes a time value beyond the range of \<open>Date\<close> the
  invalid date; day 0 (1 January 1970) was a Thursday.
\<close>

definition msPerDay :: int where
  "msPerDay = 86400000"

definition maxTime :: int where
  "maxTime = 8640000000000000"

definition Day :: "int \<Rightarrow> int" where
  "Day t = t div msPerDay"

definition TimeWithinDay :: "int \<Rightarrow> int" where
  "TimeWithinDay t = t mod msPerDay"

definition WeekDay :: "int \<Rightarrow> int" where
  "WeekDay t = (Day t + 4) mod 7"

definition MakeDate :: "int \<Rightarrow> int \<Rightarrow> int" where
  "MakeDate day time = day * msPerDay + time"

definition LocalTime :: "runtime \<Rightarrow> int \<Rightarrow> int" where
  "LocalTime rt t = t + rt_localTZA rt t True"

definition UTC :: "runtime \<Rightarrow> int \<Rightarrow> int" where
  "UTC rt t = t - rt_localTZA rt t False"

definition TimeClip :: "int \<Rightarrow> jsdate" where
  "TimeClip t = (if maxTime < \<bar>t\<bar> then InvalidDate else DateValue t)"

text \<open>\<open>date.getDay()\<close> of a valid date with time value \<open>tv\<close>: the local day of the week.\<close>

definition getDay :: "runtime \<Rightarrow> int \<Rightarrow> int" where
  "getDay rt tv = WeekDay (LocalTime rt tv)"

text \<open>
  \<open>d.setDate(today.getDate() + k)\<close> on the copy \<open>d = new Date(today)\<close> of a valid date with
  time value \<open>tv\<close>; the result is the date that \<open>d\<close> then is. With \<open>t\<close> the local time
  of \<open>tv\<close>, \<open>setDate\<close> computes \<open>MakeDay(YearFromTime(t), MonthFromTime(t), date)\<close>, the day
  number of the first of the month of \<open>t\<close> plus \<open>date - 1\<close>; for
  \<open>date = DateFromTime(t) + k\<close> that is \<open>Day(t) + k\<close>, whatever the month. The time within
  the day is kept, the local time is converted back to UTC, and clipped.
\<close>

definition setDate_ahead :: "runtime \<Rightarrow> int \<Rightarrow> int \<Rightarrow> jsdate" where
  "setDate_ahead rt tv k =
     (let t = LocalTime rt tv;
          newDate = MakeDate (Day t + k) (TimeWithinDay t)
      in TimeClip (UTC rt newDate))"

text \<open>
  \<open>getNextTuesdayAndThursday()\<close>, from the time value \<open>today\<close> of \<open>new Date()\<close>. The
  operands of \<open>%\<close> are positive, where it agrees with \<open>mod\<close>. The log line before the
  \<open>return\<close> formats both dates with \<open>formatDateToString\<close>, which throws on an invalid
  date: then the function throws and returns nothing.
\<close>

definition getNextTuesdayAndThursday :: "runtime \<Rightarrow> int \<Rightarrow> error + jsdate list" where
  "getNextTuesdayAndThursday rt today =
     (let daysUntilTuesday = (2 - getDay rt today + 7) mod 7;
          nextTuesday =
            setDate_ahead rt today (if daysUntilTuesday = 0 then 7 else daysUntilTuesday);
          daysUntilThursday = (4 - getDay rt today + 7) mod 7;
          nextThursday =
            setDate_ahead rt today (if daysUntilThursday = 0 then 7 else daysUntilThursday)
      in case formatDateToString rt nextTuesday of
           Inl e \<Rightarrow> Inl e
         | Inr _ \<Rightarrow>
             (case formatDateToString rt nextThursday of
                Inl e \<Rightarrow> Inl e
              | Inr _ \<Rightarrow> Inr [nextTuesday, nextThursday]))"

section \<open>\<open>auth.ts\<close>\<close>

definition clickElement ::
  "config \<Rightarrow> 'w driver \<Rightarrow> jsstring \<Rightarrow> jsstring \<Rightarrow> (bool, 'w) prog" where
  "clickElement cfg drv selector elementName =
     bnd (queryAll drv selector) (\<lambda>elements.
       case elements of
         [] \<Rightarrow> ret False
       | el # _ \<Rightarrow>
           try_catch
             (thn (clickNav drv el) (ret True))
             (\<lambda>e. thn (takeScreenshot cfg drv (js ''error-clicking-'' @ replace_ws elementName))
                    (ret False)))"

definition fillInput ::
  "config \<Rightarrow> 'w driver \<Rightarrow> jsstring \<Rightarrow> jsstring \<Rightarrow> jsstring \<Rightarrow> (bool, 'w) prog" where
  "fillInput cfg drv selector v fieldName =
     bnd (queryAll drv selector) (\<lambda>inputs.
       case inputs of
         [] \<Rightarrow> ret False
       | el # _ \<Rightarrow>
           try_catch
             (thn (typeText drv el v) (ret True))
             (\<lambda>e. thn (takeScreenshot cfg drv (js ''error-filling-'' @ replace_ws fieldName))
                    (ret False)))"

definition sel_email :: jsstring where
  "sel_email = js ''input[type='' @ [0x22] @ js ''email'' @ [0x22] @ js '']''"

definition sel_password :: jsstring where
  "sel_password = js ''input[type='' @ [0x22] @ js ''password'' @ [0x22] @ js '']''"

definition sel_submit :: jsstring where
  "sel_submit = js ''button[type='' @ [0x22] @ js ''submit'' @ [0x22] @ js '']''"

definition sel_logout :: jsstring where
  "sel_logout = js ''a:contains('' @ [0x22] @ js ''Logout'' @ [0x22] @ js '')''"

text \<open>The \<open>try\<close> block of \<open>login\<close>; \<open>page.url()\<close> is read for the last log line.\<close>

definition login_body :: "config \<Rightarrow> 'w driver \<Rightarrow> (unit, 'w) prog" where
  "login_body cfg drv =
     thn (goto drv (loginUrl cfg))
    (thn (wait drv 3000)
    (bnd (clickElement cfg drv (js ''button.btn-login'') (js ''member log in button'')) (\<lambda>clicked.
     if \<not> clicked then throw (Error (js ''Could not find member log in button'')) else
     thn (wait drv 2000)
    (bnd (fillInput cfg drv sel_email (email cfg) (js ''email field'')) (\<lambda>filled.
     if \<not> filled then throw (Error (js ''Could not find email input field'')) else
     bnd (fillInput cfg drv sel_password (password cfg) (js ''password field'')) (\<lambda>filled2.
     if \<not> filled2 then throw (Error (js ''Could not find password input field'')) else
     bnd (clickElement cfg drv sel_submit (js ''login button'')) (\<lambda>clicked2.
     if \<not> clicked2 then throw (Error (js ''Could not find login button'')) else
     thn (wait drv 5000)
    (thn (url drv)
         (ret ())))))))))"

definition login :: "config \<Rightarrow> 'w driver \<Rightarrow> (unit, 'w) prog" where
  "login cfg drv =
     try_catch (login_body cfg drv)
       (\<lambda>e. thn (takeScreenshot cfg drv (js ''login-error'')) (throw e))"

text \<open>The \<open>try\<close> block of \<open>isLoggedIn\<close>, and the function with its \<open>catch\<close>.\<close>

definition isLoggedIn_body :: "config \<Rightarrow> 'w driver \<Rightarrow> (bool, 'w) prog" where
  "isLoggedIn_body cfg drv =
     bnd (queryAll drv (js ''.user-menu'')) (\<lambda>elements.
       if 0 < length elements then ret True
       else
         bnd (url drv) (\<lambda>currentUrl.
           if str_includes currentUrl (js ''/dashboard'')
              \<or> str_includes currentUrl (js ''/account'')
              \<or> str_includes currentUrl (js ''/profile'')
              \<or> str_includes currentUrl (js ''/workspace'')
           then ret True
           else thn (takeScreenshot cfg drv (js ''login-verification-failed'')) (ret False)))"

definition isLoggedIn :: "config \<Rightarrow> 'w driver \<Rightarrow> (bool, 'w) prog" where
  "isLoggedIn cfg drv =
     try_catch (isLoggedIn_body cfg drv)
       (\<lambda>e. thn (takeScreenshot cfg drv (js ''login-status-error'')) (ret False))"

definition logout :: "config \<Rightarrow> 'w driver \<Rightarrow> (unit, 'w) prog" where
  "logout cfg drv =
     try_catch
       (bnd (queryAll drv sel_logout) (\<lambda>elements.
          case elements of
            el # _ \<Rightarrow> thn (click drv el) (wait drv 3000)
          | [] \<Rightarrow>
              bnd (queryAll drv (js ''.user-menu'')) (\<lambda>menuElements.
                case menuElements of
                  [] \<Rightarrow> takeScreenshot cfg drv (js ''logout-failed'')
                | menu # _ \<Rightarrow>
                    thn (click drv menu)
                   (thn (wait drv 1000)
                   (bnd (queryAll drv sel_logout) (\<lambda>logoutElements.
                      case logoutElements of
                        lo # _ \<Rightarrow> thn (click drv lo) (wait drv 3000)
                      | [] \<Rightarrow> takeScreenshot cfg drv (js ''logout-failed'')))))))
       (\<lambda>e. thn (takeScreenshot cfg drv (js ''logout-error'')) (throw e))"

section \<open>\<open>booking.ts\<close>\<close>

text \<open>
  \<open>waitForLocationText(page, locationText)\<close>: a timeout of the wait is caught, a
  screenshot is taken and the run goes on.
\<close>

definition waitForLocationText ::
  "config \<Rightarrow> runtime \<Rightarrow> 'w driver \<Rightarrow> jsstring \<Rightarrow> (unit, 'w) prog" where
  "waitForLocationText cfg rt drv locationText =
     try_catch
       (waitForText drv locationText (defaultTimeout cfg))
       (\<lambda>e. takeScreenshot cfg drv
               (replace_ws (rt_toLowerCase rt locationText) @ js ''-text-not-found''))"

definition navigateToBooking :: "config \<Rightarrow> runtime \<Rightarrow> 'w driver \<Rightarrow> (unit, 'w) prog" where
  "navigateToBooking cfg rt drv =
     try_catch
       (thn (goto drv (bookingUrl cfg))
       (thn (url drv)
            (waitForLocationText cfg rt drv (js ''10 York Rd''))))
       (\<lambda>e. thn (takeScreenshot cfg drv (js ''navigation-error'')) (throw e))"

definition sel_dateInput :: jsstring where
  "sel_dateInput = js ''yardi-control-date input.form-control''"

text \<open>
  \<open>selectDate(page, date)\<close>. The date is formatted for the log before the \<open>try\<close> block,
  so an invalid date throws with no screenshot.
\<close>

definition selectDate :: "config \<Rightarrow> runtime \<Rightarrow> 'w driver \<Rightarrow> jsdate \<Rightarrow> (unit, 'w) prog" where
  "selectDate cfg rt drv d =
     bnd (of_result (formatDateToString rt d)) (\<lambda>dateString.
       try_catch
         (thn (waitForSelector drv sel_dateInput (defaultTimeout cfg))
         (bnd (query drv sel_dateInput) (\<lambda>dateInput.
            case dateInput of
              None \<Rightarrow>
                thn (takeScreenshot cfg drv (js ''date-input-not-found''))
                    (throw (Error (js ''Could not find date input field'')))
            | Some el \<Rightarrow>
                thn (clearValue drv el)
               (bnd (of_result (formatDateForInput rt d)) (\<lambda>formattedInputDate.
                thn (typeText drv el formattedInputDate)
               (thn (press drv el (js ''Enter''))
               (thn (wait drv 1000)
               (thn (waitForLocationText cfg rt drv (location cfg))
               (bnd (evaluate drv dv_value el) (\<lambda>selectedDate.
                thn (takeScreenshot cfg drv (js ''date-selected-'' @ dateString))
                    (ret ())))))))))))
         (\<lambda>e. thn (takeScreenshot cfg drv (js ''date-selection-error-'' @ dateString))
                (throw e)))"

text \<open>The result of \<open>checkIfDesksAvailable\<close>, and the \<open>AvailabilityResult\<close> with its date.\<close>

record desk_status =
  isAvailable :: bool
  desksCount :: "jsnum option"

record availability_result = desk_status +
  date :: jsdate

text \<open>
  The function evaluated in the page on a card: \<open>null\<close> without a container
  \<open>.d-flex.flex-column\<close> around the card, and without an element
  \<open>.text-primary div[translate]\<close> in it; else that element's text content.
\<close>

definition availability_of_card :: "dom_view \<Rightarrow> elem \<Rightarrow> jsstring option" where
  "availability_of_card dv el =
     (case dv_closest dv el (js ''.d-flex.flex-column'') of
        None \<Rightarrow> None
      | Some container \<Rightarrow>
          (case dv_querySelector dv container (js ''.text-primary div[translate]'') of
             None \<Rightarrow> None
           | Some availabilityElement \<Rightarrow> dv_textContent dv availabilityElement))"

text \<open>
  The loop over the location cards; \<open>Some st\<close> is the \<open>return\<close> inside the loop, \<open>None\<close>
  is the loop running to its end. An empty string is falsy, as \<open>null\<close> is.
\<close>

primrec scan_cards :: "'w driver \<Rightarrow> elem list \<Rightarrow> (desk_status option, 'w) prog" where
  "scan_cards drv [] = ret None"
| "scan_cards drv (cardEl # cards) =
     bnd (evaluate drv dv_textContent cardEl) (\<lambda>cardText.
       case cardText of
         None \<Rightarrow> scan_cards drv cards
       | Some txt \<Rightarrow>
           if txt \<noteq> [] \<and> str_includes txt (js ''10 York Rd'') then
             bnd (evaluate drv availability_of_card cardEl) (\<lambda>availabilityText.
               case availabilityText of
                 None \<Rightarrow> scan_cards drv cards
               | Some avail \<Rightarrow>
                   if avail = [] then scan_cards drv cards
                   else
                     (case desks_match avail of
                        None \<Rightarrow> scan_cards drv cards
                      | Some ds \<Rightarrow>
                          (let count = parseInt10 ds
                           in ret (Some \<lparr>isAvailable = gt0 count, desksCount = Some count\<rparr>))))
           else scan_cards drv cards)"

definition checkIfDesksAvailable :: "config \<Rightarrow> 'w driver \<Rightarrow> (desk_status, 'w) prog" where
  "checkIfDesksAvailable cfg drv =
     try_catch
       (thn (wait drv 2000)
       (bnd (queryAll drv (js ''.card-title'')) (\<lambda>locationCards.
        bnd (scan_cards drv locationCards) (\<lambda>found.
          case found of
            Some st \<Rightarrow> ret st
          | None \<Rightarrow>
              thn (takeScreenshot cfg drv (js ''desk-availability-check''))
                  (ret \<lparr>isAvailable = False, desksCount = None\<rparr>)))))
       (\<lambda>e. thn (takeScreenshot cfg drv (js ''availability-check-error'')) (throw e))"

definition checkAvailability ::
  "config \<Rightarrow> runtime \<Rightarrow> 'w driver \<Rightarrow> jsdate \<Rightarrow> (availability_result, 'w) prog" where
  "checkAvailability cfg rt drv d =
     bnd (of_result (formatDateToString rt d)) (\<lambda>dateString.
       try_catch
         (thn (selectDate cfg rt drv d)
         (bnd (checkIfDesksAvailable cfg drv) (\<lambda>st.
          thn (if isAvailable st
               then takeScreenshot cfg drv (js ''available-desks-'' @ dateString)
               else ret ())
              (ret \<lparr>isAvailable = isAvailable st, desksCount = desksCount st, date = d\<rparr>))))
         (\<lambda>e. thn (takeScreenshot cfg drv (js ''availability-error-'' @ dateString))
                (throw e)))"

section \<open>\<open>slack.ts\<close>\<close>

text \<open>One line of the message; the emoji are U+2705 and U+274C.\<close>

definition section_line :: "runtime \<Rightarrow> availability_result \<Rightarrow> error + jsstring" where
  "section_line rt result =
     (case formatDateToString rt (date result) of
        Inl e \<Rightarrow> Inl e
      | Inr dateString \<Rightarrow>
          (let formattedDate = formatDate rt dateString;
               emoji = (if isAvailable result then [0x2705] else [0x274C]);
               statusText =
                 (if isAvailable result then
                    (case desksCount result of
                       Some n \<Rightarrow> js ''*'' @ rt_numToString rt n @ js '' desks available*''
                     | None \<Rightarrow> js ''*Desks are available*'')
                  else js ''*No desks available*'')
           in Inr (emoji @ js '' '' @ formattedDate @ js '': '' @ statusText)))"

text \<open>\<open>results.map(...)\<close>, stopping at the first exception.\<close>

primrec section_lines :: "runtime \<Rightarrow> availability_result list \<Rightarrow> error + jsstring list" where
  "section_lines rt [] = Inr []"
| "section_lines rt (r # rs) =
     (case section_line rt r of
        Inl e \<Rightarrow> Inl e
      | Inr l \<Rightarrow> (case section_lines rt rs of Inl e \<Rightarrow> Inl e | Inr ls \<Rightarrow> Inr (l # ls)))"

text \<open>\<open>lines.join('\n')\<close>.\<close>

fun join_lines :: "jsstring list \<Rightarrow> jsstring" where
  "join_lines [] = []"
| "join_lines [l] = l"
| "join_lines (l # ls) = l @ [0x0A] @ join_lines ls"

text \<open>
  \<open>sendCombinedSlackNotification(results, locationName)\<close>. The webhook URL is falsy when
  it is undefined or empty. The payload is the object with the one field \<open>text\<close>; the
  branch on the response status only chooses a log line.
\<close>

definition sendCombinedSlackNotification ::
  "config \<Rightarrow> runtime \<Rightarrow> 'w driver \<Rightarrow> availability_result list \<Rightarrow> jsstring \<Rightarrow> (unit, 'w) prog"
  where
  "sendCombinedSlackNotification cfg rt drv results locationName =
     (case slackWebhookUrl cfg of
        None \<Rightarrow> ret ()
      | Some webhook \<Rightarrow>
          if webhook = [] then ret ()
          else if length results = 0 then ret ()
          else
            try_catch
              (bnd (of_result (section_lines rt results)) (\<lambda>lines.
                 let sections = join_lines lines;
                     bookingLink =
                       [0x0A, 0x0A] @ js ''<'' @ loginUrl cfg @ js ''|*Click here to book a desk*>'';
                     payload =
                       js ''*WeWork Desk Availability for '' @ locationName @ js ''*''
                       @ [0x0A, 0x0A] @ sections @ bookingLink
                 in bnd (post drv webhook payload) (\<lambda>status.
                      if status = 200 then ret () else ret ())))
              (\<lambda>e. ret ()))"

section \<open>\<open>config.ts\<close> and \<open>index.ts\<close>\<close>

definition validateConfig :: "config \<Rightarrow> error + unit" where
  "validateConfig cfg =
     (if email cfg = [] \<or> password cfg = [] then
        Inl (Error (js ''WEWORK_EMAIL and WEWORK_PASSWORD must be set in .env file''))
      else if location cfg = [] then
        Inl (Error (js ''LOCATION_NAME must be set in .env file''))
      else Inr ())"

definition launchBrowser :: "config \<Rightarrow> runtime \<Rightarrow> 'w driver \<Rightarrow> (unit, 'w) prog" where
  "launchBrowser cfg rt drv =
     (let args = [js ''--start-maximized'', js ''--window-size=1280,800''];
          args' =
            (if useSecondDisplay cfg then
               (case windowPosition cfg of
                  Some (x, y) \<Rightarrow>
                    args @ [js ''--window-position='' @ rt_numToString rt x @ js '',''
                            @ rt_numToString rt y]
                | None \<Rightarrow> args @ [js ''--window-position=2000,100''])
             else args)
      in launch drv (headless cfg) args' (slowMo cfg))"

text \<open>The loop of \<open>main\<close> over the dates, with its pause of two seconds after each check.\<close>

primrec check_dates ::
  "config \<Rightarrow> runtime \<Rightarrow> 'w driver \<Rightarrow> jsdate list \<Rightarrow> (availability_result list, 'w) prog" where
  "check_dates cfg rt drv [] = ret []"
| "check_dates cfg rt drv (d # ds) =
     bnd (checkAvailability cfg rt drv d) (\<lambda>result.
     thn (wait drv 2000)
    (bnd (check_dates cfg rt drv ds) (\<lambda>rest. ret (result # rest))))"

text \<open>The summary loop only logs; \<open>result.date.toISOString()\<close> is what could throw in it.\<close>

primrec summary :: "runtime \<Rightarrow> availability_result list \<Rightarrow> error + unit" where
  "summary rt [] = Inr ()"
| "summary rt (r # rs) =
     (case toISOString rt (date r) of Inl e \<Rightarrow> Inl e | Inr _ \<Rightarrow> summary rt rs)"

text \<open>
  The inner \<open>try\<close> block of \<open>main\<close>, in two parts: all that comes before the
  notification (viewport, login and its verification, navigation, the checks of the
  dates), and the notification with what follows it.
\<close>

definition collect_results ::
  "config \<Rightarrow> runtime \<Rightarrow> 'w driver \<Rightarrow> (availability_result list, 'w) prog" where
  "collect_results cfg rt drv =
     thn (setViewport drv 1280 800)
    (thn (login cfg drv)
    (bnd (isLoggedIn cfg drv) (\<lambda>loggedIn.
     if \<not> loggedIn then throw (Error (js ''Login failed. Could not verify logged in status.''))
     else
     thn (navigateToBooking cfg rt drv)
    (bnd (now drv) (\<lambda>today.
     bnd (of_result (getNextTuesdayAndThursday rt today)) (\<lambda>nextDates.
     check_dates cfg rt drv nextDates))))))"

definition automation :: "config \<Rightarrow> runtime \<Rightarrow> 'w driver \<Rightarrow> (unit, 'w) prog" where
  "automation cfg rt drv =
     bnd (collect_results cfg rt drv) (\<lambda>availabilityResults.
     thn (sendCombinedSlackNotification cfg rt drv availabilityResults (location cfg))
    (thn (of_result (summary rt availabilityResults))
         (if logoutAfterCompletion cfg then logout cfg drv else ret ())))"

text \<open>
  How the process ends: \<open>Exit c\<close> is a call of \<open>process.exit(c)\<close>; \<open>Completed\<close> is \<open>main\<close>
  returning with no such call, after which Node exits with status 0.
\<close>

datatype outcome = Completed | Exit int


text \<open>
  \<open>main()\<close>. The inner \<open>catch\<close> logs the error and takes a screenshot; it does not
  rethrow. The \<open>finally\<close> closes the browser. The outer \<open>catch\<close> calls \<open>process.exit(1)\<close>.
\<close>

definition main :: "config \<Rightarrow> runtime \<Rightarrow> 'w driver \<Rightarrow> 'w state \<Rightarrow> outcome \<times> 'w state" where
  "main cfg rt drv s =
     (case
        (thn (of_result (validateConfig cfg))
        (thn (launchBrowser cfg rt drv)
        (thn (newPage drv)
             (try_finally
                (try_catch (automation cfg rt drv) (\<lambda>e. takeScreenshot cfg drv (js ''error'')))
                (closeBrowser drv))))) s
      of
        (Inl e, s') \<Rightarrow> (Exit 1, s')
      | (Inr _, s') \<Rightarrow> (Completed, s'))"

section \<open>A simulated site\<close>

text \<open>
  A driver to run the program on: a page that does not change. It answers a selector
  with a fixed list of handles, shows a fixed document, and makes exactly the calls
  chosen by \<open>sp_failing\<close> throw.
\<close>

record sim_page =
  sp_elements :: "jsstring \<Rightarrow> elem list"
  sp_view :: dom_view
  sp_url :: jsstring
  sp_viewport :: "(int \<times> int) option"
  sp_failing :: "call \<Rightarrow> bool"
  sp_status :: int
  sp_time :: int

definition sim_op :: "call \<Rightarrow> 'a \<Rightarrow> sim_page \<Rightarrow> (error + 'a) \<times> sim_page" where
  "sim_op c x w = (if sp_failing w c then Inl (External (js ''simulated failure'')) else Inr x, w)"

definition sim_driver :: "sim_page driver" where
  "sim_driver =
     \<lparr>d_launch = (\<lambda>h args slow. sim_op (Launch h args slow) ()),
      d_newPage = sim_op NewPage (),
      d_close = sim_op CloseBrowser (),
      d_setViewport = (\<lambda>w h. sim_op (SetViewport w h) ()),
      d_goto = (\<lambda>u. sim_op (Goto u) ()),
      d_url = (\<lambda>w. sim_op Url (sp_url w) w),
      d_queryAll = (\<lambda>sel w. sim_op (QueryAll sel) (sp_elements w sel) w),
      d_query = (\<lambda>sel w. sim_op (Query sel)
                   (case sp_elements w sel of [] \<Rightarrow> None | el # _ \<Rightarrow> Some el) w),
      d_waitForSelector = (\<lambda>sel t. sim_op (WaitForSelector sel t) ()),
      d_waitForText = (\<lambda>txt t. sim_op (WaitForText txt t) ()),
      d_evaluate = (\<lambda>el w. sim_op (Evaluate el) (sp_view w) w),
      d_clearValue = (\<lambda>el. sim_op (ClearValue el) ()),
      d_click = (\<lambda>el. sim_op (Click el) ()),
      d_clickNav = (\<lambda>el. sim_op (ClickNav el) ()),
      d_type = (\<lambda>el v. sim_op (Type el v) ()),
      d_press = (\<lambda>el k. sim_op (Press el k) ()),
      d_viewport = (\<lambda>w. sim_op Viewport (sp_viewport w) w),
      d_screenshot = (\<lambda>path. sim_op (Screenshot path) ()),
      d_sleep = (\<lambda>ms w. w),
      d_now = sp_time,
      d_post = (\<lambda>u payload w. sim_op (Post u payload) (sp_status w) w)\<rparr>"

text \<open>
  The site: one location card (handle 1) titled \<open>WeWork 10 York Rd\<close>, in a container
  (handle 2) whose availability element (handle 3) shows the text \<open>avail\<close>; a date
  input (handle 4); the member log-in button, the two input fields, and the submit
  buttons \<open>submits\<close>. The clock shows the start of day 6 after 1 January 1970 in UTC, a
  Wednesday.
\<close>

definition site_elements :: "elem list \<Rightarrow> jsstring \<Rightarrow> elem list" where
  "site_elements submits sel =
     (if sel = js ''.card-title'' then [1]
      else if sel = sel_dateInput then [4]
      else if sel = js ''button.btn-login'' then [5]
      else if sel = sel_email then [6]
      else if sel = sel_password then [7]
      else if sel = sel_submit then submits
      else [])"

definition site_view :: "jsstring \<Rightarrow> dom_view" where
  "site_view avail =
     \<lparr>dv_textContent = (\<lambda>el. if el = 1 then Some (js ''WeWork 10 York Rd'')
                              else if el = 3 then Some avail else None),
      dv_closest = (\<lambda>el sel. if el = 1 \<and> sel = js ''.d-flex.flex-column'' then Some 2 else None),
      dv_querySelector = (\<lambda>el sel. if el = 2 \<and> sel = js ''.text-primary div[translate]''
                                    then Some 3 else None),
      dv_value = (\<lambda>el. [])\<rparr>"

definition site :: "jsstring \<Rightarrow> elem list \<Rightarrow> (call \<Rightarrow> bool) \<Rightarrow> sim_page" where
  "site avail submits failing =
     \<lparr>sp_elements = site_elements submits,
      sp_view = site_view avail,
      sp_url = js ''https://members.wework.com/workplaceone/content2/dashboard'',
      sp_viewport = Some (1280, 800),
      sp_failing = failing,
      sp_status = 200,
      sp_time = 518400000\<rparr>"

text \<open>
  A page with two location cards whose titles both contain \<open>10 York Rd\<close>: the first
  (handle 1, container 2, availability element 3) shows \<open>Fully booked\<close>, the second
  (handle 11, container 12, availability element 13) shows \<open>4 desks available\<close>.
\<close>

definition two_cards_view :: dom_view where
  "two_cards_view =
     \<lparr>dv_textContent = (\<lambda>el. if el = 1 then Some (js ''WeWork 10 York Rd'')
                              else if el = 3 then Some (js ''Fully booked'')
                              else if el = 11 then Some (js ''WeWork 10 York Rd, 2nd floor'')
                              else if el = 13 then Some (js ''4 desks available'')
                              else None),
      dv_closest = (\<lambda>el sel. if sel = js ''.d-flex.flex-column'' \<and> (el = 1 \<or> el = 11)
                              then Some (Suc el) else None),
      dv_querySelector = (\<lambda>el sel. if sel = js ''.text-primary div[translate]''
                                       \<and> (el = 2 \<or> el = 12)
                                    then Some (Suc el) else None),
      dv_value = (\<lambda>el. [])\<rparr>"

definition two_cards :: sim_page where
  "two_cards =
     \<lparr>sp_elements = (\<lambda>sel. if sel = js ''.card-title'' then [1, 11] else []),
      sp_view = two_cards_view,
      sp_url = js ''https://members.wework.com/workplaceone/content2/bookings/desks'',
      sp_viewport = Some (1280, 800),
      sp_failing = (\<lambda>c. False),
      sp_status = 200,
      sp_time = 518400000\<rparr>"

text \<open>
  The runtime of the tests, with a fixed offset of one hour, is \<open>test_runtime\<close> below. The
  runtime \<open>gap_runtime\<close> has a zone like that of Tehran in March 2018: the offset is
  3:30 until the clocks go from 00:00 to 01:00 on 22 March (at 20:30 UTC on 21 March) and
  4:30 after; the local times that are skipped are read with the offset before.
\<close>

definition gap_offset :: "int \<Rightarrow> bool \<Rightarrow> int" where
  "gap_offset t isUTC =
     (if isUTC then (if t < 1521664200000 then 12600000 else 16200000)
      else (if t < 1521680400000 then 12600000 else 16200000))"

definition start :: "sim_page \<Rightarrow> sim_page state" where
  "start p = \<lparr>world = p, trace = []\<rparr>"

definition test_config :: config where
  "test_config =
     \<lparr>email = js ''me@example.com'',
      password = js ''secret'',
      location = js ''10 York Rd'',
      baseUrl = js ''https://www.wework.com'',
      loginUrl = js ''https://members.wework.com/workplaceone/content2/login/welcome'',
      bookingUrl = js ''https://members.wework.com/workplaceone/content2/bookings/desks'',
      screenshotsDir = js ''./screenshots'',
      headless = True,
      slowMo = 0,
      defaultTimeout = 30000,
      loginTimeout = 60000,
      logoutAfterCompletion = True,
      slackWebhookUrl = Some (js ''https://hooks.slack.com/services/T/B/X''),
      enableScreenshots = True,
      windowPosition = None,
      useSecondDisplay = False\<rparr>"

definition test_runtime :: runtime where
  "test_runtime =
     \<lparr>rt_isoString = (\<lambda>t. js ''2025-03-18T09:00:00.000Z''),
      rt_formatToParts = (\<lambda>t. [(js ''month'', js ''Mar''), (js ''literal'', js '' ''),
                                (js ''day'', js ''18''), (js ''literal'', js '', ''),
                                (js ''year'', js ''2025'')]),
      rt_longDate = (\<lambda>s. js ''March 18, 2025''),
      rt_numToString = (\<lambda>n. js ''3''),
      rt_toLowerCase = (\<lambda>s. s),
      rt_localTZA = (\<lambda>t isUTC. 3600000)\<rparr>"

definition gap_runtime :: runtime where
  "gap_runtime = test_runtime\<lparr>rt_localTZA := gap_offset\<rparr>"

text \<open>
  What a call of the simulated driver does to a state: it throws when the page makes the
  call fail and returns \<open>x\<close> otherwise; the world stays and the call is recorded.
\<close>

definition sim_result :: "sim_page state \<Rightarrow> call \<Rightarrow> 'a \<Rightarrow> (error + 'a) \<times> sim_page state" where
  "sim_result s c x =
     (if sp_failing (world s) c then Inl (External (js ''simulated failure'')) else Inr x,
      \<lparr>world = world s, trace = trace s @ [(c, \<not> sp_failing (world s) c)]\<rparr>)"

section \<open>Notions used in the proofs\<close>

text \<open>
  The loop over the cards, read off a document that does not change: \<open>card_digits\<close> is
  the capture group found on one card (none when the card is passed over),
  \<open>first_digits\<close> the one of the first card that has one, and \<open>status_of\<close> the
  result that \<open>checkIfDesksAvailable\<close> makes of it. The lemma \<open>scan_cards_static\<close>
  below proves that the loop computes exactly this.
\<close>

definition card_digits :: "dom_view \<Rightarrow> elem \<Rightarrow> jsstring option" where
  "card_digits dv c =
     (case dv_textContent dv c of
        None \<Rightarrow> None
      | Some txt \<Rightarrow>
          if txt \<noteq> [] \<and> str_includes txt (js ''10 York Rd'') then
            (case availability_of_card dv c of
               None \<Rightarrow> None
             | Some avail \<Rightarrow> if avail = [] then None else desks_match avail)
          else None)"

fun first_digits :: "dom_view \<Rightarrow> elem list \<Rightarrow> jsstring option" where
  "first_digits dv [] = None"
| "first_digits dv (c # cs) =
     (case card_digits dv c of Some ds \<Rightarrow> Some ds | None \<Rightarrow> first_digits dv cs)"

definition status_of :: "jsstring option \<Rightarrow> desk_status" where
  "status_of found =
     (case found of
        None \<Rightarrow> \<lparr>isAvailable = False, desksCount = None\<rparr>
      | Some ds \<Rightarrow> \<lparr>isAvailable = gt0 (parseInt10 ds), desksCount = Some (parseInt10 ds)\<rparr>)"

section \<open>Running a program: basic facts\<close>

lemma ret_apply: "ret x s = (Inr x, s)"
  by (simp add: ret_def)

lemma try_catch_unit: "fst (try_catch m (\<lambda>e. ret ()) s) = Inr ()"
  by (cases "m s"; cases "fst (m s)") (auto simp: try_catch_def ret_def)

text \<open>\<open>takeScreenshot\<close> never throws.\<close>

lemma takeScreenshot_returns: "fst (takeScreenshot cfg drv name s) = Inr ()"
  by (simp add: takeScreenshot_def try_catch_unit ret_apply)

lemma takeScreenshot_cases: "\<exists>s'. takeScreenshot cfg drv name s = (Inr (), s')"
  using takeScreenshot_returns [of cfg drv name s]
  by (cases "takeScreenshot cfg drv name s") simp

text \<open>A sequence that returned: its first part returned, and the rest ran from there.\<close>

lemma bnd_Inr_elim:
  assumes "fst (bnd m f s) = Inr y"
  obtains x s1 where "m s = (Inr x, s1)" and "fst (f x s1) = Inr y"
  using assms by (cases "m s"; cases "fst (m s)") (auto simp: bnd_def)

lemma thn_Inr_elim:
  assumes "fst (thn m n s) = Inr y"
  obtains x s1 where "m s = (Inr x, s1)" and "fst (n s1) = Inr y"
  using assms unfolding thn_def by (rule bnd_Inr_elim)

text \<open>A \<open>catch\<close> that rethrows: when the whole returned, the \<open>try\<close> block did.\<close>

lemma rethrow_Inr_elim:
  assumes "fst (try_catch m (\<lambda>e. thn k (throw e)) s) = Inr y"
  shows "fst (m s) = Inr y"
  using assms
  by (cases "m s"; cases "fst (m s)")
     (auto simp: try_catch_def thn_def bnd_def throw_def split: prod.splits sum.splits)

section \<open>The notification\<close>

text \<open>
  Claim C4. For every list of results and every behaviour of the HTTP client (a response
  of any status, or an exception), \<open>sendCombinedSlackNotification\<close> returns normally:
  it never throws to its caller. The driver and the state are arbitrary, so \<open>d_post\<close>
  may answer or throw in any way; an invalid date among the results, on which
  \<open>toISOString\<close> throws, is covered as well.
\<close>

theorem sendCombinedSlackNotification_never_throws:
  "fst (sendCombinedSlackNotification cfg rt drv results locationName s) = Inr ()"
  by (simp add: sendCombinedSlackNotification_def try_catch_unit ret_apply split: option.split)

text \<open>
  Claim C5. When the webhook URL is undefined or empty, or the list of results is empty,
  \<open>sendCombinedSlackNotification\<close> returns and leaves the state as it was: the trace is
  the same, so no HTTP request was sent and the driver was not called at all, and the
  world is the same. (The function writes one line to the console, which the model does
  not keep.)
\<close>

theorem sendCombinedSlackNotification_noop:
  "slackWebhookUrl cfg = None \<or> slackWebhookUrl cfg = Some [] \<or> results = []
   \<Longrightarrow> sendCombinedSlackNotification cfg rt drv results locationName s = (Inr (), s)"
  by (auto simp: sendCombinedSlackNotification_def ret_def split: option.split)

theorem sendCombinedSlackNotification_noop_witness:
  "sendCombinedSlackNotification (test_config\<lparr>slackWebhookUrl := Some []\<rparr>) test_runtime sim_driver
      [\<lparr>isAvailable = True, desksCount = Some (Finite 3), date = DateValue 0\<rparr>] (js ''10 York Rd'')
      (start (site (js ''3 desks available'') [8] (\<lambda>c. False)))
    = (Inr (), start (site (js ''3 desks available'') [8] (\<lambda>c. False)))
   \<and> sendCombinedSlackNotification test_config test_runtime sim_driver [] (js ''10 York Rd'')
      (start (site (js ''3 desks available'') [8] (\<lambda>c. False)))
    = (Inr (), start (site (js ''3 desks available'') [8] (\<lambda>c. False)))"
  using sendCombinedSlackNotification_noop
          [of "test_config\<lparr>slackWebhookUrl := Some []\<rparr>"
              "[\<lparr>isAvailable = True, desksCount = Some (Finite 3), date = DateValue 0\<rparr>]"
              test_runtime sim_driver "js ''10 York Rd''"
              "start (site (js ''3 desks available'') [8] (\<lambda>c. False))"]
        sendCombinedSlackNotification_noop
          [of test_config "[]" test_runtime sim_driver "js ''10 York Rd''"
              "start (site (js ''3 desks available'') [8] (\<lambda>c. False))"]
  by simp

section \<open>Configuration is validated first\<close>

text \<open>
  Claim C7. When the email, the password or the location name of the configuration is
  empty, \<open>validateConfig\<close> throws an error, and \<open>main\<close> ends with \<open>process.exit(1)\<close> in the
  state it started from: the trace is unchanged, so the browser was not launched and no
  page was opened.
\<close>

theorem validateConfig_before_browser:
  "email cfg = [] \<or> password cfg = [] \<or> location cfg = []
   \<Longrightarrow> (\<exists>msg. validateConfig cfg = Inl (Error msg)) \<and> main cfg rt drv s = (Exit 1, s)"
  by (auto simp: validateConfig_def main_def thn_def bnd_def of_result_def)

theorem validateConfig_before_browser_witness:
  "password (test_config\<lparr>password := []\<rparr>) = []
   \<and> validateConfig (test_config\<lparr>password := []\<rparr>)
       = Inl (Error (js ''WEWORK_EMAIL and WEWORK_PASSWORD must be set in .env file''))
   \<and> main (test_config\<lparr>password := []\<rparr>) test_runtime sim_driver
        (start (site (js ''3 desks available'') [8] (\<lambda>c. False)))
      = (Exit 1, start (site (js ''3 desks available'') [8] (\<lambda>c. False)))"
  using validateConfig_before_browser
          [of "test_config\<lparr>password := []\<rparr>" test_runtime sim_driver
              "start (site (js ''3 desks available'') [8] (\<lambda>c. False))"]
  by (simp add: validateConfig_def)

section \<open>The login check\<close>

text \<open>
  Claim C10. \<open>isLoggedIn\<close> is total: from every state and for every driver it returns a
  boolean and never throws; and whenever its \<open>try\<close> block throws (the query for the user
  menu, or reading the URL), it returns \<open>false\<close>.
\<close>

theorem isLoggedIn_total:
  "(\<exists>b. fst (isLoggedIn cfg drv s) = Inr b)
   \<and> (isl (fst (isLoggedIn_body cfg drv s)) \<longrightarrow> fst (isLoggedIn cfg drv s) = Inr False)"
proof -
  obtain r s1 where body: "isLoggedIn_body cfg drv s = (r, s1)"
    by (cases "isLoggedIn_body cfg drv s")
  obtain s2 where shot: "takeScreenshot cfg drv (js ''login-status-error'') s1 = (Inr (), s2)"
    using takeScreenshot_cases by blast
  show ?thesis
    using body shot
    by (cases r) (auto simp: isLoggedIn_def try_catch_def thn_def bnd_def ret_def)
qed

theorem isLoggedIn_total_witness:
  "isl (fst (isLoggedIn_body test_config sim_driver
          (start (site (js ''3 desks available'') [8] (\<lambda>c. c = QueryAll (js ''.user-menu''))))))
   \<and> fst (isLoggedIn test_config sim_driver
          (start (site (js ''3 desks available'') [8] (\<lambda>c. c = QueryAll (js ''.user-menu'')))))
     = Inr False"
  using isLoggedIn_total
          [of test_config sim_driver
              "start (site (js ''3 desks available'') [8] (\<lambda>c. c = QueryAll (js ''.user-menu'')))"]
  by (simp add: isLoggedIn_body_def bnd_def queryAll_def perform_def sim_driver_def sim_op_def
        start_def site_def)

section \<open>The dates to check\<close>

lemma WeekDay_range: "0 \<le> WeekDay t \<and> WeekDay t < 7"
  by (simp add: WeekDay_def)

lemma day_cases:
  "getDay rt t = 0 \<or> getDay rt t = 1 \<or> getDay rt t = 2 \<or> getDay rt t = 3 \<or> getDay rt t = 4
   \<or> getDay rt t = 5 \<or> getDay rt t = 6"
  using WeekDay_range [of "LocalTime rt t"] unfolding getDay_def by arith

text \<open>Setting the day of the month \<open>k\<close> further moves the local time by \<open>k\<close> days.\<close>

lemma MakeDate_ahead: "MakeDate (Day t + k) (TimeWithinDay t) = t + k * msPerDay"
  by (simp add: MakeDate_def Day_def TimeWithinDay_def algebra_simps)

lemma setDate_ahead_in_range:
  "\<bar>UTC rt (LocalTime rt tv + k * msPerDay)\<bar> \<le> maxTime
   \<Longrightarrow> setDate_ahead rt tv k = DateValue (UTC rt (LocalTime rt tv + k * msPerDay))"
  by (simp add: setDate_ahead_def Let_def MakeDate_ahead TimeClip_def)

lemma formatDateToString_valid: "\<exists>str. formatDateToString rt (DateValue t) = Inr str"
  by (simp add: formatDateToString_def toISOString_def)

lemma getDay_ahead:
  "Day (LocalTime rt u) = Day (LocalTime rt tv) + k \<Longrightarrow> getDay rt u = (getDay rt tv + k) mod 7"
  by (simp add: getDay_def WeekDay_def algebra_simps mod_add_right_eq)

lemma next_dates_at:
  assumes k: "(if (2 - getDay rt today + 7) mod 7 = 0 then 7 else (2 - getDay rt today + 7) mod 7) = k"
    and j: "(if (4 - getDay rt today + 7) mod 7 = 0 then 7 else (4 - getDay rt today + 7) mod 7) = j"
    and rk: "\<bar>UTC rt (LocalTime rt today + k * msPerDay)\<bar> \<le> maxTime"
    and rj: "\<bar>UTC rt (LocalTime rt today + j * msPerDay)\<bar> \<le> maxTime"
  shows "getNextTuesdayAndThursday rt today
         = Inr [DateValue (UTC rt (LocalTime rt today + k * msPerDay)),
                DateValue (UTC rt (LocalTime rt today + j * msPerDay))]"
proof -
  obtain a where a: "formatDateToString rt (DateValue (UTC rt (LocalTime rt today + k * msPerDay))) = Inr a"
    using formatDateToString_valid by blast
  obtain b where b: "formatDateToString rt (DateValue (UTC rt (LocalTime rt today + j * msPerDay))) = Inr b"
    using formatDateToString_valid by blast
  show ?thesis
    unfolding getNextTuesdayAndThursday_def Let_def k j
    by (simp add: setDate_ahead_in_range [OF rk] setDate_ahead_in_range [OF rj] a b)
qed

text \<open>
  Claim C9, as amended. Let \<open>today\<close> be such that the local times 1 to 7 days after it are
  within the range of \<open>Date\<close> when converted to UTC, and such that the time zone gives
  each of them back on its own calendar day (no transition of the zone skips it past the
  end of the day). Then \<open>getNextTuesdayAndThursday\<close> returns exactly two dates, \<open>k\<close> and
  \<open>j\<close> local calendar days after today with \<open>1 \<le> k \<le> 7\<close> and \<open>1 \<le> j \<le> 7\<close>: the first
  is a Tuesday (local day 2 of the week) and the second a Thursday (day 4), always in
  this order. When today is a Wednesday (day 3) the Thursday is one day ahead and the
  Tuesday six, so the second date is the earlier one.
\<close>

theorem getNextTuesdayAndThursday_dates:
  assumes range: "\<And>k. 1 \<le> k \<Longrightarrow> k \<le> 7
            \<Longrightarrow> \<bar>UTC rt (LocalTime rt today + k * msPerDay)\<bar> \<le> maxTime"
    and zone: "\<And>k. 1 \<le> k \<Longrightarrow> k \<le> 7
            \<Longrightarrow> Day (LocalTime rt (UTC rt (LocalTime rt today + k * msPerDay)))
                = Day (LocalTime rt today) + k"
  shows "\<exists>k j. getNextTuesdayAndThursday rt today
            = Inr [DateValue (UTC rt (LocalTime rt today + k * msPerDay)),
                   DateValue (UTC rt (LocalTime rt today + j * msPerDay))]
     \<and> 1 \<le> k \<and> k \<le> 7 \<and> 1 \<le> j \<and> j \<le> 7
     \<and> getDay rt (UTC rt (LocalTime rt today + k * msPerDay)) = 2
     \<and> getDay rt (UTC rt (LocalTime rt today + j * msPerDay)) = 4
     \<and> Day (LocalTime rt (UTC rt (LocalTime rt today + k * msPerDay)))
         = Day (LocalTime rt today) + k
     \<and> Day (LocalTime rt (UTC rt (LocalTime rt today + j * msPerDay)))
         = Day (LocalTime rt today) + j
     \<and> (getDay rt today = 3 \<longrightarrow> j = 1 \<and> k = 6)"
proof -
  define k where "k = (if (2 - getDay rt today + 7) mod 7 = 0 then 7 else (2 - getDay rt today + 7) mod 7)"
  define j where "j = (if (4 - getDay rt today + 7) mod 7 = 0 then 7 else (4 - getDay rt today + 7) mod 7)"
  have kb: "1 \<le> k \<and> k \<le> 7 \<and> (getDay rt today + k) mod 7 = 2 \<and> (getDay rt today = 3 \<longrightarrow> k = 6)"
    using day_cases [of rt today] by (elim disjE) (simp_all add: k_def)
  have jb: "1 \<le> j \<and> j \<le> 7 \<and> (getDay rt today + j) mod 7 = 4 \<and> (getDay rt today = 3 \<longrightarrow> j = 1)"
    using day_cases [of rt today] by (elim disjE) (simp_all add: j_def)
  have rk: "\<bar>UTC rt (LocalTime rt today + k * msPerDay)\<bar> \<le> maxTime"
    using kb by (intro range) simp_all
  have rj: "\<bar>UTC rt (LocalTime rt today + j * msPerDay)\<bar> \<le> maxTime"
    using jb by (intro range) simp_all
  have zk: "Day (LocalTime rt (UTC rt (LocalTime rt today + k * msPerDay))) = Day (LocalTime rt today) + k"
    using kb by (intro zone) simp_all
  have zj: "Day (LocalTime rt (UTC rt (LocalTime rt today + j * msPerDay))) = Day (LocalTime rt today) + j"
    using jb by (intro zone) simp_all
  have run: "getNextTuesdayAndThursday rt today
         = Inr [DateValue (UTC rt (LocalTime rt today + k * msPerDay)),
                DateValue (UTC rt (LocalTime rt today + j * msPerDay))]"
    using k_def [symmetric] j_def [symmetric] rk rj by (rule next_dates_at)
  have dk: "getDay rt (UTC rt (LocalTime rt today + k * msPerDay)) = 2"
    using getDay_ahead [OF zk] kb by simp
  have dj: "getDay rt (UTC rt (LocalTime rt today + j * msPerDay)) = 4"
    using getDay_ahead [OF zj] jb by simp
  show ?thesis
    using run kb jb dk dj zk zj by blast
qed

theorem getNextTuesdayAndThursday_dates_witness:
  "getDay test_runtime 518400000 = 3
   \<and> getNextTuesdayAndThursday test_runtime 518400000
       = Inr [DateValue 1036800000, DateValue 604800000]
   \<and> getDay test_runtime 1036800000 = 2
   \<and> getDay test_runtime 604800000 = 4"
proof -
  have range: "\<And>k. 1 \<le> k \<Longrightarrow> k \<le> 7
      \<Longrightarrow> \<bar>UTC test_runtime (LocalTime test_runtime 518400000 + k * msPerDay)\<bar> \<le> maxTime"
    by (simp add: UTC_def LocalTime_def test_runtime_def msPerDay_def maxTime_def)
  have zone: "\<And>k. 1 \<le> k \<Longrightarrow> k \<le> 7
      \<Longrightarrow> Day (LocalTime test_runtime (UTC test_runtime
              (LocalTime test_runtime 518400000 + k * msPerDay)))
          = Day (LocalTime test_runtime 518400000) + k"
    by (simp add: UTC_def LocalTime_def test_runtime_def msPerDay_def Day_def)
  have wed: "getDay test_runtime 518400000 = 3"
    by (simp add: getDay_def WeekDay_def Day_def LocalTime_def test_runtime_def msPerDay_def)
  from getNextTuesdayAndThursday_dates [OF range zone] wed show ?thesis
    by (auto simp: UTC_def LocalTime_def test_runtime_def msPerDay_def)
qed

text \<open>
  The claim as stated, two dates for every value of today, fails at the last time value
  of \<open>Date\<close>: the next Tuesday is beyond the range, \<open>setDate\<close> makes it the invalid date,
  and the log line of the function throws a \<open>RangeError\<close> while formatting it.
\<close>

theorem getNextTuesdayAndThursday_range_counterexample:
  "\<bar>8640000000000000\<bar> \<le> maxTime
   \<and> getNextTuesdayAndThursday test_runtime 8640000000000000
       = Inl (External (js ''RangeError: Invalid time value''))"
  by (simp add: getNextTuesdayAndThursday_def Let_def getDay_def WeekDay_def Day_def
        LocalTime_def UTC_def setDate_ahead_def MakeDate_def TimeWithinDay_def TimeClip_def
        formatDateToString_def toISOString_def test_runtime_def msPerDay_def maxTime_def)

text \<open>
  Where a transition of the zone skips the target time, \<open>setDate\<close> moves it: from 00:30 on
  Wednesday 21 March 2018 in the zone of \<open>gap_runtime\<close>, the Thursday is 01:30 on 22 March
  (local time value 1521682200000), since 00:30 does not exist on that day.
\<close>

lemma getNextTuesdayAndThursday_gap:
  "LocalTime gap_runtime 1521579600000 = 1521592200000
   \<and> getNextTuesdayAndThursday gap_runtime 1521579600000
       = Inr [DateValue 1522094400000, DateValue 1521666000000]
   \<and> LocalTime gap_runtime 1521666000000 = 1521682200000"
  by (simp add: getNextTuesdayAndThursday_def Let_def getDay_def WeekDay_def Day_def
        LocalTime_def UTC_def setDate_ahead_def MakeDate_def TimeWithinDay_def TimeClip_def
        formatDateToString_def toISOString_def gap_runtime_def gap_offset_def test_runtime_def
        msPerDay_def maxTime_def)

section \<open>Numbers\<close>

text \<open>The bit length, and the conversion of an integer to a number value.\<close>

lemma bit_length_le: "bit_length n \<le> k \<longleftrightarrow> n < 2 ^ k"
proof (induction k arbitrary: n)
  case 0
  show ?case by (subst bit_length.simps) simp
next
  case (Suc k)
  have "n div 2 < 2 ^ k \<longleftrightarrow> n < 2 * 2 ^ k" by auto
  with Suc show ?case by (subst bit_length.simps) auto
qed

lemma bit_length_eq: "2 ^ k \<le> n \<Longrightarrow> n < 2 ^ Suc k \<Longrightarrow> bit_length n = Suc k"
  using bit_length_le [of n "Suc k"] bit_length_le [of n k] by simp

lemma to_double_small: "n < 2 ^ 53 \<Longrightarrow> to_double n = Finite (int n)"
  using bit_length_le [of n 53] by (simp add: to_double_def)

lemma to_double_exact: "n \<le> 2 ^ 53 \<Longrightarrow> to_double n = Finite (int n)"
proof (cases "n < 2 ^ 53")
  case True
  then show ?thesis by (rule to_double_small)
next
  case False
  assume "n \<le> 2 ^ 53"
  with False have n: "n = 2 ^ 53" by simp
  have "bit_length n = 54"
    using bit_length_eq [of 53 n] n by simp
  then show ?thesis
    by (simp add: to_double_def Let_def n)
qed

lemma gt0_to_double: "gt0 (to_double n) \<longleftrightarrow> 0 < n"
proof (cases "bit_length n \<le> 53")
  case True
  then show ?thesis by (simp add: to_double_def)
next
  case False
  define e where "e = bit_length n"
  define sh where "sh = e - 53"
  from False have e: "53 < e" by (simp add: e_def)
  have "\<not> bit_length n \<le> e - 1" using e by (simp add: e_def)
  then have low: "2 ^ (e - 1) \<le> n" by (simp add: bit_length_le)
  have "(2::nat) ^ sh \<le> 2 ^ (e - 1)"
    by (rule power_increasing) (simp_all add: sh_def)
  from this low have "2 ^ sh \<le> n" by (rule order_trans)
  then have q: "0 < n div 2 ^ sh" by (simp add: div_greater_zero_iff)
  have npos: "0 < n" using low by (cases n) auto
  show ?thesis
    using False q npos
    by (simp add: to_double_def Let_def e_def [symmetric] sh_def [symmetric])
qed

lemma to_double_2p53_plus_1: "to_double 9007199254740993 = Finite 9007199254740992"
proof -
  have "bit_length 9007199254740993 = 54"
    using bit_length_eq [of 53 9007199254740993] by simp
  then show ?thesis
    by (simp add: to_double_def Let_def)
qed

section \<open>Running the program on the simulated site\<close>

lemmas prog_defs = ret_def throw_def bnd_def thn_def try_catch_def try_finally_def of_result_def

lemma sim_calls:
  "launch sim_driver h args slow s = sim_result s (Launch h args slow) ()"
  "newPage sim_driver s = sim_result s NewPage ()"
  "closeBrowser sim_driver s = sim_result s CloseBrowser ()"
  "setViewport sim_driver vw vh s = sim_result s (SetViewport vw vh) ()"
  "goto sim_driver u s = sim_result s (Goto u) ()"
  "url sim_driver s = sim_result s Url (sp_url (world s))"
  "queryAll sim_driver sel s = sim_result s (QueryAll sel) (sp_elements (world s) sel)"
  "query sim_driver sel s = sim_result s (Query sel)
      (case sp_elements (world s) sel of [] \<Rightarrow> None | el # _ \<Rightarrow> Some el)"
  "waitForSelector sim_driver sel t s = sim_result s (WaitForSelector sel t) ()"
  "waitForText sim_driver txt t s = sim_result s (WaitForText txt t) ()"
  "clearValue sim_driver el s = sim_result s (ClearValue el) ()"
  "click sim_driver el s = sim_result s (Click el) ()"
  "clickNav sim_driver el s = sim_result s (ClickNav el) ()"
  "typeText sim_driver el v s = sim_result s (Type el v) ()"
  "press sim_driver el k s = sim_result s (Press el k) ()"
  "viewport sim_driver s = sim_result s Viewport (sp_viewport (world s))"
  "screenshot sim_driver path s = sim_result s (Screenshot path) ()"
  "post sim_driver u payload s = sim_result s (Post u payload) (sp_status (world s))"
  "wait sim_driver ms s = (Inr (), \<lparr>world = world s, trace = trace s @ [(Sleep ms, True)]\<rparr>)"
  "now sim_driver s = (Inr (sp_time (world s)), s)"
  by (simp_all add: sim_result_def sim_driver_def sim_op_def perform_def launch_def newPage_def
        closeBrowser_def setViewport_def goto_def url_def queryAll_def query_def
        waitForSelector_def waitForText_def clearValue_def click_def clickNav_def typeText_def
        press_def viewport_def screenshot_def post_def now_def wait_def)

lemma sim_evaluate:
  "evaluate sim_driver f el s = (case sim_result s (Evaluate el) (sp_view (world s)) of
      (Inl e, s') \<Rightarrow> (Inl e, s') | (Inr dv, s') \<Rightarrow> (Inr (f dv el), s'))"
  by (simp add: evaluate_def sim_result_def sim_driver_def sim_op_def perform_def bnd_def ret_def)

lemmas sim_defs = sim_calls sim_evaluate sim_result_def site_def site_elements_def site_view_def
  start_def test_config_def test_runtime_def

lemmas str_defs = js_def sel_email_def sel_password_def sel_submit_def sel_logout_def
  sel_dateInput_def match_at_def is_digit_def is_space_def ci_eq_def dec_val_def digit_val_def

lemmas booking_defs = checkAvailability_def selectDate_def checkIfDesksAvailable_def
  waitForLocationText_def takeScreenshot_def formatDateToString_def toISOString_def
  formatDateForInput_def part_value_def availability_of_card_def parseInt10_def

lemma run_selectDate:
  "fst (selectDate test_config test_runtime sim_driver (DateValue 0)
         (start (site avail submits (\<lambda>c. False)))) = Inr ()"
  "world (snd (selectDate test_config test_runtime sim_driver (DateValue 0)
                (start (site avail submits (\<lambda>c. False)))))
   = site avail submits (\<lambda>c. False)"
  by (simp_all add: booking_defs prog_defs sim_defs str_defs)

lemma site_cards:
  "d_queryAll sim_driver (js ''.card-title'') (site avail submits (\<lambda>c. False))
   = (Inr [1], site avail submits (\<lambda>c. False))"
  by (simp add: sim_driver_def sim_op_def site_def site_elements_def)

lemma site_evaluate:
  "\<forall>x\<in>set [1]. d_evaluate sim_driver x (site avail submits (\<lambda>c. False))
     = (Inr (site_view avail), site avail submits (\<lambda>c. False))"
  by (simp add: sim_driver_def sim_op_def site_def)

lemma site_cards_split:
  "d_queryAll sim_driver (js ''.card-title'') (site avail submits (\<lambda>c. False))
   = (Inr ([] @ 1 # []), site avail submits (\<lambda>c. False))"
  using site_cards [of avail submits] by simp

lemma site_evaluate_split:
  "\<forall>x\<in>set ([] @ 1 # []). d_evaluate sim_driver x (site avail submits (\<lambda>c. False))
     = (Inr (site_view avail), site avail submits (\<lambda>c. False))"
  using site_evaluate [of avail submits] by simp

lemma site_sleep: "d_sleep sim_driver ms p = p"
  by (simp add: sim_driver_def)

lemma site_title:
  "dv_textContent (site_view avail) 1 = Some (js ''WeWork 10 York Rd'')"
  "str_includes (js ''WeWork 10 York Rd'') (js ''10 York Rd'')"
  "availability_of_card (site_view avail) 1 = Some avail"
  by (simp_all add: site_view_def availability_of_card_def js_def)

lemma run_three_desks:
  "fst (checkAvailability test_config test_runtime sim_driver (DateValue 0)
          (start (site (js ''3 desks available'') [8] (\<lambda>c. False))))
     = Inr \<lparr>isAvailable = True, desksCount = Some (Finite 3), date = DateValue 0\<rparr>"
  by (simp add: booking_defs prog_defs sim_defs str_defs to_double_small)

section \<open>The availability check\<close>

subsection \<open>Available only with a positive count\<close>

lemma scan_cards_positive:
  "fst (scan_cards drv cards s) = Inr (Some st) \<Longrightarrow> isAvailable st
   \<Longrightarrow> \<exists>c. desksCount st = Some c \<and> gt0 c"
proof (induction cards arbitrary: s)
  case Nil
  then show ?case by (simp add: ret_def)
next
  case (Cons cardEl cards)
  from Cons.prems(1) obtain cardText s1
    where "fst ((case cardText of
         None \<Rightarrow> scan_cards drv cards
       | Some txt \<Rightarrow>
           if txt \<noteq> [] \<and> str_includes txt (js ''10 York Rd'') then
             bnd (evaluate drv availability_of_card cardEl) (\<lambda>availabilityText.
               case availabilityText of
                 None \<Rightarrow> scan_cards drv cards
               | Some avail \<Rightarrow>
                   if avail = [] then scan_cards drv cards
                   else
                     (case desks_match avail of
                        None \<Rightarrow> scan_cards drv cards
                      | Some ds \<Rightarrow>
                          (let count = parseInt10 ds
                           in ret (Some \<lparr>isAvailable = gt0 count, desksCount = Some count\<rparr>))))
           else scan_cards drv cards) s1) = Inr (Some st)"
    by (auto elim!: bnd_Inr_elim)
  then show ?case
    using Cons.IH Cons.prems(2)
    by (auto simp: ret_def Let_def split: option.splits if_splits elim!: bnd_Inr_elim)
qed

lemma scan_cards_positive_pair:
  "scan_cards drv cards s = (Inr (Some st), s') \<Longrightarrow> isAvailable st
   \<Longrightarrow> \<exists>c. desksCount st = Some c \<and> gt0 c"
  using scan_cards_positive [of drv cards s st] by simp

lemma checkIfDesksAvailable_positive:
  assumes "fst (checkIfDesksAvailable cfg drv s) = Inr st" and "isAvailable st"
  shows "\<exists>c. desksCount st = Some c \<and> gt0 c"
proof -
  from assms(1) have "fst ((thn (wait drv 2000)
       (bnd (queryAll drv (js ''.card-title'')) (\<lambda>locationCards.
        bnd (scan_cards drv locationCards) (\<lambda>found.
          case found of
            Some st \<Rightarrow> ret st
          | None \<Rightarrow>
              thn (takeScreenshot cfg drv (js ''desk-availability-check''))
                  (ret \<lparr>isAvailable = False, desksCount = None\<rparr>))))) s) = Inr st"
    unfolding checkIfDesksAvailable_def by (rule rethrow_Inr_elim)
  then show ?thesis
    using assms(2)
    by (elim thn_Inr_elim bnd_Inr_elim)
       (auto simp: ret_def split: option.splits elim!: thn_Inr_elim
             dest: scan_cards_positive_pair)
qed

text \<open>
  Claim C8. Every result that \<open>checkAvailability\<close> returns with \<open>isAvailable\<close> true has
  a defined \<open>desksCount\<close>, and that count is greater than zero: "available, count
  unknown" is never produced.
\<close>

theorem checkAvailability_available_has_count:
  "fst (checkAvailability cfg rt drv d s) = Inr r \<Longrightarrow> isAvailable r
   \<Longrightarrow> \<exists>c. desksCount r = Some c \<and> gt0 c"
proof -
  assume r: "fst (checkAvailability cfg rt drv d s) = Inr r" and av: "isAvailable r"
  from r obtain dateString s0 where
    "fst (try_catch
         (thn (selectDate cfg rt drv d)
         (bnd (checkIfDesksAvailable cfg drv) (\<lambda>st.
          thn (if isAvailable st
               then takeScreenshot cfg drv (js ''available-desks-'' @ dateString)
               else ret ())
              (ret \<lparr>isAvailable = isAvailable st, desksCount = desksCount st, date = d\<rparr>))))
         (\<lambda>e. thn (takeScreenshot cfg drv (js ''availability-error-'' @ dateString))
                (throw e)) s0) = Inr r"
    unfolding checkAvailability_def by (elim bnd_Inr_elim)
  then have "fst ((thn (selectDate cfg rt drv d)
         (bnd (checkIfDesksAvailable cfg drv) (\<lambda>st.
          thn (if isAvailable st
               then takeScreenshot cfg drv (js ''available-desks-'' @ dateString)
               else ret ())
              (ret \<lparr>isAvailable = isAvailable st, desksCount = desksCount st, date = d\<rparr>)))) s0) = Inr r"
    by (rule rethrow_Inr_elim)
  then obtain st s1 s2 where st: "checkIfDesksAvailable cfg drv s1 = (Inr st, s2)"
    and "r = \<lparr>isAvailable = isAvailable st, desksCount = desksCount st, date = d\<rparr>"
    by (elim thn_Inr_elim bnd_Inr_elim) (auto simp: ret_def)
  then show ?thesis
    using av checkIfDesksAvailable_positive [of cfg drv s1 st] by simp
qed

theorem checkAvailability_available_has_count_witness:
  "fst (checkAvailability test_config test_runtime sim_driver (DateValue 0)
          (start (site (js ''3 desks available'') [8] (\<lambda>c. False))))
     = Inr \<lparr>isAvailable = True, desksCount = Some (Finite 3), date = DateValue 0\<rparr>
   \<and> isAvailable \<lparr>isAvailable = True, desksCount = Some (Finite 3), date = DateValue 0\<rparr>
   \<and> (\<exists>c. desksCount \<lparr>isAvailable = True, desksCount = Some (Finite 3), date = DateValue 0\<rparr>
             = Some c \<and> gt0 c)"
  using run_three_desks
    checkAvailability_available_has_count [OF run_three_desks]
  by simp

subsection \<open>The loop over the cards on a page that does not change\<close>

lemma evaluate_static:
  "d_evaluate drv c (world s) = (Inr dv, world s)
   \<Longrightarrow> evaluate drv f c s = (Inr (f dv c), \<lparr>world = world s, trace = trace s @ [(Evaluate c, True)]\<rparr>)"
  by (simp add: evaluate_def perform_def bnd_def ret_def)

lemma scan_cards_static:
  assumes "\<forall>c\<in>set cards. d_evaluate drv c w = (Inr dv, w)" and "world s = w"
  shows "\<exists>s'. scan_cards drv cards s
            = (Inr (map_option (\<lambda>ds. \<lparr>isAvailable = gt0 (parseInt10 ds),
                                       desksCount = Some (parseInt10 ds)\<rparr>) (first_digits dv cards)), s')
          \<and> world s' = w"
  using assms
proof (induction cards arbitrary: s)
  case Nil
  then show ?case by (simp add: ret_def)
next
  case (Cons c cards)
  let ?s1 = "\<lparr>world = world s, trace = trace s @ [(Evaluate c, True)]\<rparr>"
  let ?s2 = "\<lparr>world = world ?s1, trace = trace ?s1 @ [(Evaluate c, True)]\<rparr>"
  from Cons.prems have ev: "d_evaluate drv c (world s) = (Inr dv, world s)" by simp
  then have ev1: "d_evaluate drv c (world ?s1) = (Inr dv, world ?s1)" by simp
  have e1: "\<And>f. evaluate drv f c s = (Inr (f dv c), ?s1)"
    using ev by (rule evaluate_static)
  have e2: "\<And>f. evaluate drv f c ?s1 = (Inr (f dv c), ?s2)"
    using ev1 by (rule evaluate_static)
  have ih1: "\<exists>s'. scan_cards drv cards ?s1
            = (Inr (map_option (\<lambda>ds. \<lparr>isAvailable = gt0 (parseInt10 ds),
                                       desksCount = Some (parseInt10 ds)\<rparr>) (first_digits dv cards)), s')
          \<and> world s' = w"
    using Cons.prems by (intro Cons.IH) simp_all
  have ih2: "\<exists>s'. scan_cards drv cards ?s2
            = (Inr (map_option (\<lambda>ds. \<lparr>isAvailable = gt0 (parseInt10 ds),
                                       desksCount = Some (parseInt10 ds)\<rparr>) (first_digits dv cards)), s')
          \<and> world s' = w"
    using Cons.prems by (intro Cons.IH) simp_all
  show ?case
    using ih1 ih2 Cons.prems(2)
    by (auto simp: bnd_def e1 e2 card_digits_def ret_def Let_def
             split: option.splits)
qed


lemma match_at_digits:
  "match_at s = Some ds \<Longrightarrow> ds \<noteq> [] \<and> (\<forall>x\<in>set ds. is_digit x)"
  by (auto simp: match_at_def Let_def split: if_splits dest: set_takeWhileD)

lemma desks_match_digits:
  "desks_match a = Some ds \<Longrightarrow> ds \<noteq> [] \<and> (\<forall>x\<in>set ds. is_digit x)"
  by (induction a) (auto split: option.splits dest: match_at_digits)

lemma parseInt10_match: "desks_match a = Some ds \<Longrightarrow> parseInt10 ds = to_double (dec_val ds)"
proof -
  assume "desks_match a = Some ds"
  then have d: "ds \<noteq> []" "\<forall>x\<in>set ds. is_digit x"
    using desks_match_digits [of a ds] by simp_all
  have tw: "takeWhile is_digit ds = ds"
    using d(2) by (simp add: takeWhile_eq_all_conv)
  show ?thesis
    unfolding parseInt10_def Let_def tw using d(1) by simp
qed

lemma status_of_match:
  "desks_match a = Some ds
   \<Longrightarrow> status_of (Some ds)
       = \<lparr>isAvailable = (0 < dec_val ds), desksCount = Some (to_double (dec_val ds))\<rparr>"
  by (simp add: status_of_def parseInt10_match gt0_to_double)

lemma checkIfDesksAvailable_static:
  assumes cards: "d_queryAll drv (js ''.card-title'') w = (Inr cards, w)"
    and view: "\<forall>c\<in>set cards. d_evaluate drv c w = (Inr dv, w)"
    and w: "w = d_sleep drv 2000 (world s)"
  shows "fst (checkIfDesksAvailable cfg drv s) = Inr (status_of (first_digits dv cards))"
proof -
  obtain s1 where s1: "wait drv 2000 s = (Inr (), s1)" and w1: "world s1 = w"
    by (simp add: wait_def w)
  obtain s2 where s2: "queryAll drv (js ''.card-title'') s1 = (Inr cards, s2)" and w2: "world s2 = w"
    using cards w1 by (simp add: queryAll_def perform_def)
  obtain s3 where s3: "scan_cards drv cards s2
      = (Inr (map_option (\<lambda>ds. \<lparr>isAvailable = gt0 (parseInt10 ds),
                                 desksCount = Some (parseInt10 ds)\<rparr>) (first_digits dv cards)), s3)"
    using scan_cards_static [OF view w2] by auto
  obtain s4 where s4: "takeScreenshot cfg drv (js ''desk-availability-check'') s3 = (Inr (), s4)"
    using takeScreenshot_cases by blast
  show ?thesis
    by (cases "first_digits dv cards")
       (simp_all add: checkIfDesksAvailable_def try_catch_def thn_def bnd_def s1 s2 s3 s4 ret_def
          status_of_def)
qed

lemma selectDate_formats:
  "selectDate cfg rt drv d s0 = (Inr (), s) \<Longrightarrow> \<exists>dateString. formatDateToString rt d = Inr dateString"
  by (cases "formatDateToString rt d") (auto simp: selectDate_def bnd_def of_result_def)

lemma checkAvailability_via:
  assumes sel: "selectDate cfg rt drv d s0 = (Inr (), s)"
    and st: "fst (checkIfDesksAvailable cfg drv s) = Inr st"
  shows "fst (checkAvailability cfg rt drv d s0)
         = Inr \<lparr>isAvailable = isAvailable st, desksCount = desksCount st, date = d\<rparr>"
proof -
  obtain dateString where fmt: "formatDateToString rt d = Inr dateString"
    using selectDate_formats [OF sel] by blast
  obtain s1 where s1: "checkIfDesksAvailable cfg drv s = (Inr st, s1)"
    using st by (cases "checkIfDesksAvailable cfg drv s") simp
  obtain s2 where s2: "takeScreenshot cfg drv (js ''available-desks-'' @ dateString) s1 = (Inr (), s2)"
    using takeScreenshot_cases by blast
  show ?thesis
    by (simp add: checkAvailability_def bnd_def thn_def of_result_def fmt try_catch_def sel s1 s2
          ret_def)
qed

lemma first_digits_none:
  "\<forall>c\<in>set cards. card_digits dv c = None \<Longrightarrow> first_digits dv cards = None"
  by (induction cards) simp_all

lemma first_digits_found:
  "\<forall>b\<in>set before. card_digits dv b = None \<Longrightarrow> card_digits dv c = Some ds
   \<Longrightarrow> first_digits dv (before @ c # after) = Some ds"
  by (induction before) simp_all

lemma card_digits_noneI:
  assumes "(\<forall>t. dv_textContent dv c = Some t \<longrightarrow> \<not> str_includes t (js ''10 York Rd''))
         \<or> availability_of_card dv c = None
         \<or> (\<exists>a. availability_of_card dv c = Some a \<and> desks_match a = None)"
  shows "card_digits dv c = None"
  using assms by (auto simp: card_digits_def split: option.splits)

lemma card_digits_someI:
  assumes "dv_textContent dv c = Some title" and "str_includes title (js ''10 York Rd'')"
    and "availability_of_card dv c = Some avail" and "desks_match avail = Some ds"
  shows "card_digits dv c = Some ds"
proof -
  have "title \<noteq> []" using assms(2) by (auto simp: js_def)
  moreover have "avail \<noteq> []" using assms(4) by auto
  ultimately show ?thesis using assms by (simp add: card_digits_def)
qed

subsection \<open>No evidence, no desks\<close>

text \<open>
  Claim C2, as amended. Take a page that answers the query for the card titles with the
  list \<open>cards\<close> and shows the document \<open>dv\<close> to every evaluation, both without throwing
  and without changing (\<open>w\<close> is the world after the settling delay). If every card is of
  one of three kinds: its text does not contain \<open>10 York Rd\<close>; or no availability text
  is found for it (no container, no availability element, or no text in it); or its
  availability text does not match the pattern, then \<open>checkIfDesksAvailable\<close> returns
  exactly \<open>isAvailable = false\<close> with \<open>desksCount\<close> unset, and so does \<open>checkAvailability\<close>
  for any date whose selection led to this state.
\<close>

theorem checkAvailability_default_unavailable:
  assumes cards: "d_queryAll drv (js ''.card-title'') w = (Inr cards, w)"
    and view: "\<forall>c\<in>set cards. d_evaluate drv c w = (Inr dv, w)"
    and w: "w = d_sleep drv 2000 (world s)"
    and none: "\<forall>c\<in>set cards.
                 (\<forall>t. dv_textContent dv c = Some t \<longrightarrow> \<not> str_includes t (js ''10 York Rd''))
               \<or> availability_of_card dv c = None
               \<or> (\<exists>a. availability_of_card dv c = Some a \<and> desks_match a = None)"
  shows "fst (checkIfDesksAvailable cfg drv s) = Inr \<lparr>isAvailable = False, desksCount = None\<rparr>
       \<and> (\<forall>d s0. selectDate cfg rt drv d s0 = (Inr (), s) \<longrightarrow>
             fst (checkAvailability cfg rt drv d s0)
             = Inr \<lparr>isAvailable = False, desksCount = None, date = d\<rparr>)"
proof -
  have "\<forall>c\<in>set cards. card_digits dv c = None"
    using none by (blast intro: card_digits_noneI)
  then have "first_digits dv cards = None" by (rule first_digits_none)
  then have st: "fst (checkIfDesksAvailable cfg drv s) = Inr \<lparr>isAvailable = False, desksCount = None\<rparr>"
    using checkIfDesksAvailable_static [OF cards view w, of cfg] by (simp add: status_of_def)
  show ?thesis
    using st checkAvailability_via [OF _ st] by auto
qed

theorem checkAvailability_default_unavailable_witness:
  "fst (checkIfDesksAvailable test_config sim_driver
         (snd (selectDate test_config test_runtime sim_driver (DateValue 0)
                (start (site (js ''Fully booked'') [8] (\<lambda>c. False))))))
     = Inr \<lparr>isAvailable = False, desksCount = None\<rparr>
   \<and> fst (checkAvailability test_config test_runtime sim_driver (DateValue 0)
           (start (site (js ''Fully booked'') [8] (\<lambda>c. False))))
     = Inr \<lparr>isAvailable = False, desksCount = None, date = DateValue 0\<rparr>"
proof -
  let ?P = "site (js ''Fully booked'') [8] (\<lambda>c. False)"
  let ?s = "snd (selectDate test_config test_runtime sim_driver (DateValue 0) (start ?P))"
  have w: "?P = d_sleep sim_driver 2000 (world ?s)"
    by (simp add: run_selectDate site_sleep)
  have m: "desks_match (js ''Fully booked'') = None"
    by (simp add: str_defs)
  have none: "\<forall>c\<in>set [1].
       (\<forall>t. dv_textContent (site_view (js ''Fully booked'')) c = Some t
              \<longrightarrow> \<not> str_includes t (js ''10 York Rd''))
     \<or> availability_of_card (site_view (js ''Fully booked'')) c = None
     \<or> (\<exists>a. availability_of_card (site_view (js ''Fully booked'')) c = Some a
              \<and> desks_match a = None)"
    using site_title(1,3) [of "js ''Fully booked''"] m by simp
  have sel: "selectDate test_config test_runtime sim_driver (DateValue 0) (start ?P) = (Inr (), ?s)"
    using run_selectDate(1) [of "js ''Fully booked''" "[8]"] by (simp add: prod_eq_iff)
  note inst = checkAvailability_default_unavailable [where cfg = test_config and rt = test_runtime,
      OF site_cards site_evaluate w none]
  have "fst (checkIfDesksAvailable test_config sim_driver ?s)
          = Inr \<lparr>isAvailable = False, desksCount = None\<rparr>"
    using inst by simp
  moreover have "fst (checkAvailability test_config test_runtime sim_driver (DateValue 0) (start ?P))
          = Inr \<lparr>isAvailable = False, desksCount = None, date = DateValue 0\<rparr>"
    using inst sel by auto
  ultimately show ?thesis by (rule conjI)
qed

text \<open>
  The claim as stated looks at the matching card only, the first whose text contains the
  location. The loop does not stop at that card when it yields no count: on the page
  below the first card with \<open>10 York Rd\<close> shows \<open>Fully booked\<close>, which does not match the
  pattern, and the result is the count of the second card.
\<close>

theorem later_card_counterexample:
  "sp_elements two_cards (js ''.card-title'') = [1, 11]
   \<and> dv_textContent two_cards_view 1 = Some (js ''WeWork 10 York Rd'')
   \<and> str_includes (js ''WeWork 10 York Rd'') (js ''10 York Rd'')
   \<and> availability_of_card two_cards_view 1 = Some (js ''Fully booked'')
   \<and> desks_match (js ''Fully booked'') = None
   \<and> fst (checkIfDesksAvailable test_config sim_driver (start two_cards))
       = Inr \<lparr>isAvailable = True, desksCount = Some (Finite 4)\<rparr>"
  by (simp add: booking_defs prog_defs sim_calls sim_evaluate sim_result_def start_def
        test_config_def two_cards_def two_cards_view_def str_defs to_double_small)

subsection \<open>What the pattern matches\<close>

text \<open>
  A text that starts with digits, then white space, then \<open>desk\<close> in any case, matches the
  pattern with exactly those digits in the capture group; and the capture group of any
  match is a non-empty run of digits (\<open>desks_match_digits\<close> above), which \<open>dec_val\<close> reads
  in decimal, digit by digit.
\<close>

lemma space_not_digit: "is_space c \<Longrightarrow> \<not> is_digit c"
  by (auto simp: is_space_def is_digit_def word_le_nat_alt)

lemma desk_here_head:
  "desk_here rest \<Longrightarrow> \<exists>d tl. rest = d # tl \<and> \<not> is_space d \<and> \<not> is_digit d"
  by (cases rest rule: desk_here.cases) (auto simp: ci_eq_def is_space_def is_digit_def)

lemma match_at_leading:
  assumes "ds \<noteq> []" and "\<forall>c\<in>set ds. is_digit c"
    and "ws \<noteq> []" and "\<forall>c\<in>set ws. is_space c"
    and "desk_here rest"
  shows "match_at (ds @ ws @ rest) = Some ds"
proof -
  obtain w ws' where ws: "ws = w # ws'" using assms(3) by (cases ws) auto
  obtain d tl where rest: "rest = d # tl" "\<not> is_space d"
    using desk_here_head [OF assms(5)] by blast
  have nd: "\<not> is_digit w" using assms(4) ws by (simp add: space_not_digit)
  have t1: "takeWhile is_digit (ds @ ws @ rest) = ds"
    using assms(2) nd by (simp add: ws takeWhile_append2)
  have d1: "dropWhile is_digit (ds @ ws @ rest) = ws @ rest"
    using assms(2) nd by (simp add: ws dropWhile_append2)
  have t2: "takeWhile is_space (ws @ rest) = ws"
    using assms(4) rest by (simp add: takeWhile_append2)
  have d2: "dropWhile is_space (ws @ rest) = rest"
    using assms(4) rest by (simp add: dropWhile_append2)
  show ?thesis
    using assms(1,3,5) by (simp add: match_at_def t1 d1 t2 d2)
qed

lemma desks_match_leading:
  assumes "ds \<noteq> []" and "\<forall>c\<in>set ds. is_digit c"
    and "ws \<noteq> []" and "\<forall>c\<in>set ws. is_space c"
    and "desk_here rest"
  shows "desks_match (ds @ ws @ rest) = Some ds"
proof -
  obtain x xs where "ds @ ws @ rest = x # xs" using assms(1) by (cases ds) auto
  then show ?thesis
    using match_at_leading [OF assms] by simp
qed

lemma dec_val_snoc: "dec_val (ds @ [c]) = 10 * dec_val ds + digit_val c"
  by (simp add: dec_val_def)

subsection \<open>The count that is read\<close>

text \<open>
  Claim C1, as amended. Take a page that answers the query for the card titles with a
  list of cards and shows the document \<open>dv\<close> to every evaluation, both without throwing
  and without changing (\<open>w\<close> is the world after the settling delay). Let \<open>c\<close> be the first
  card that yields a count: its text contains \<open>10 York Rd\<close> and its availability text
  matches the pattern, with the digits \<open>ds\<close> in the capture group, while every card
  before it lacks the location in its text, or has no availability text, or has one that
  does not match. Let \<open>n\<close> be the integer that \<open>ds\<close> denotes in decimal. Then
  \<open>checkIfDesksAvailable\<close>, and \<open>checkAvailability\<close> for any date whose selection led to
  this state, return \<open>isAvailable = (n > 0)\<close> and \<open>desksCount\<close> the number value of \<open>n\<close>,
  for every \<open>n \<ge> 0\<close>. The number value is \<open>n\<close> itself whenever \<open>n \<le> 2 ^ 53\<close>; beyond
  that it is \<open>n\<close> rounded to a double.
\<close>

theorem checkAvailability_count:
  assumes cards: "d_queryAll drv (js ''.card-title'') w = (Inr (before @ c # after), w)"
    and view: "\<forall>x\<in>set (before @ c # after). d_evaluate drv x w = (Inr dv, w)"
    and w: "w = d_sleep drv 2000 (world s)"
    and before: "\<forall>b\<in>set before.
                 (\<forall>t. dv_textContent dv b = Some t \<longrightarrow> \<not> str_includes t (js ''10 York Rd''))
               \<or> availability_of_card dv b = None
               \<or> (\<exists>a. availability_of_card dv b = Some a \<and> desks_match a = None)"
    and title: "dv_textContent dv c = Some title" "str_includes title (js ''10 York Rd'')"
    and avail: "availability_of_card dv c = Some avail"
    and match: "desks_match avail = Some ds"
    and n: "n = dec_val ds"
  shows "fst (checkIfDesksAvailable cfg drv s)
           = Inr \<lparr>isAvailable = (0 < n), desksCount = Some (to_double n)\<rparr>
       \<and> (n \<le> 2 ^ 53 \<longrightarrow> to_double n = Finite (int n))
       \<and> (\<forall>d s0. selectDate cfg rt drv d s0 = (Inr (), s) \<longrightarrow>
             fst (checkAvailability cfg rt drv d s0)
             = Inr \<lparr>isAvailable = (0 < n), desksCount = Some (to_double n), date = d\<rparr>)"
proof -
  have "\<forall>b\<in>set before. card_digits dv b = None"
    using before by (blast intro: card_digits_noneI)
  moreover have "card_digits dv c = Some ds"
    using title avail match by (rule card_digits_someI)
  ultimately have "first_digits dv (before @ c # after) = Some ds"
    by (rule first_digits_found)
  then have st: "fst (checkIfDesksAvailable cfg drv s)
           = Inr \<lparr>isAvailable = (0 < n), desksCount = Some (to_double n)\<rparr>"
    using checkIfDesksAvailable_static [OF cards view w, of cfg] status_of_match [OF match]
    by (simp add: n)
  show ?thesis
    using st checkAvailability_via [OF _ st] to_double_exact [of n] by auto
qed

theorem checkAvailability_count_witness:
  "fst (checkIfDesksAvailable test_config sim_driver
         (snd (selectDate test_config test_runtime sim_driver (DateValue 0)
                (start (site (js ''3 desks available'') [8] (\<lambda>c. False))))))
     = Inr \<lparr>isAvailable = True, desksCount = Some (Finite 3)\<rparr>
   \<and> fst (checkAvailability test_config test_runtime sim_driver (DateValue 0)
           (start (site (js ''3 desks available'') [8] (\<lambda>c. False))))
     = Inr \<lparr>isAvailable = True, desksCount = Some (Finite 3), date = DateValue 0\<rparr>"
proof -
  let ?P = "site (js ''3 desks available'') [8] (\<lambda>c. False)"
  let ?s = "snd (selectDate test_config test_runtime sim_driver (DateValue 0) (start ?P))"
  have w: "?P = d_sleep sim_driver 2000 (world ?s)"
    by (simp add: run_selectDate site_sleep)
  have m: "desks_match (js ''3 desks available'') = Some (js ''3'')"
    by (simp add: str_defs)
  have n: "(3::nat) = dec_val (js ''3'')"
    by (simp add: str_defs)
  have sel: "selectDate test_config test_runtime sim_driver (DateValue 0) (start ?P) = (Inr (), ?s)"
    using run_selectDate(1) [of "js ''3 desks available''" "[8]"] by (simp add: prod_eq_iff)
  have small: "(3::nat) \<le> 2 ^ 53" by simp
  note inst = checkAvailability_count [where cfg = test_config and rt = test_runtime,
      OF site_cards_split site_evaluate_split w _ site_title m n]
  have exact: "to_double 3 = Finite 3"
    using inst small by simp
  have "fst (checkIfDesksAvailable test_config sim_driver ?s)
          = Inr \<lparr>isAvailable = True, desksCount = Some (Finite 3)\<rparr>"
    using inst exact by simp
  moreover have "fst (checkAvailability test_config test_runtime sim_driver (DateValue 0) (start ?P))
          = Inr \<lparr>isAvailable = True, desksCount = Some (Finite 3), date = DateValue 0\<rparr>"
    using inst sel exact by auto
  ultimately show ?thesis by (rule conjI)
qed


text \<open>
  The claim as stated, \<open>desksCount = n\<close> for all \<open>n\<close>, fails at the availability text
  \<open>9007199254740993 desks available\<close>: the pattern matches with \<open>n = 2 ^ 53 + 1\<close>, and
  \<open>parseInt\<close> returns \<open>2 ^ 53\<close>.
\<close>

theorem desksCount_rounding_counterexample:
  "desks_match (js ''9007199254740993 desks available'') = Some (js ''9007199254740993'')
   \<and> dec_val (js ''9007199254740993'') = 9007199254740993
   \<and> fst (checkIfDesksAvailable test_config sim_driver
           (start (site (js ''9007199254740993 desks available'') [8] (\<lambda>c. False))))
       = Inr \<lparr>isAvailable = True, desksCount = Some (Finite 9007199254740992)\<rparr>
   \<and> Finite 9007199254740992 \<noteq> Finite 9007199254740993"
  by (simp add: booking_defs prog_defs sim_defs str_defs to_double_2p53_plus_1)

section \<open>Login without a submit button\<close>

text \<open>What a call adds to the trace, and the screenshots and requests of a longer trace.\<close>

lemma screenshots_append: "screenshots (xs @ ys) = screenshots xs @ screenshots ys"
  by (induction xs rule: screenshots.induct) simp_all


lemma perform_trace:
  "perform c op s = (r, s') \<Longrightarrow> trace s' = trace s @ [(c, \<not> isl r)]"
  by (auto simp: perform_def split: prod.splits)

lemma wait_trace: "trace (snd (wait drv ms s)) = trace s @ [(Sleep ms, True)]"
  by (simp add: wait_def)

text \<open>A click or an input that succeeded took no screenshot.\<close>

lemma clickElement_true_screenshots:
  assumes "clickElement cfg drv sel name s = (Inr True, s')"
  shows "screenshots (trace s') = screenshots (trace s)"
proof -
  obtain r s1 where q: "queryAll drv sel s = (r, s1)"
    by (cases "queryAll drv sel s")
  have t1: "trace s1 = trace s @ [(QueryAll sel, \<not> isl r)]"
    using q unfolding queryAll_def by (rule perform_trace)
  show ?thesis
  proof (cases r)
    case (Inl e)
    with assms q show ?thesis by (simp add: clickElement_def bnd_def)
  next
    case (Inr els)
    show ?thesis
    proof (cases els)
      case Nil
      with assms q Inr show ?thesis by (simp add: clickElement_def bnd_def ret_def)
    next
      case (Cons el rest)
      obtain r2 s2 where c: "clickNav drv el s1 = (r2, s2)"
        by (cases "clickNav drv el s1")
      have t2: "trace s2 = trace s1 @ [(ClickNav el, \<not> isl r2)]"
        using c unfolding clickNav_def by (rule perform_trace)
      obtain s3 where sh: "takeScreenshot cfg drv (js ''error-clicking-'' @ replace_ws name) s2 = (Inr (), s3)"
        using takeScreenshot_cases by blast
      from assms q Inr Cons c sh have "s' = s2"
        by (cases r2) (simp_all add: clickElement_def bnd_def thn_def try_catch_def ret_def)
      then show ?thesis
        using t1 t2 by (simp add: screenshots_append)
    qed
  qed
qed

lemma fillInput_true_screenshots:
  assumes "fillInput cfg drv sel v name s = (Inr True, s')"
  shows "screenshots (trace s') = screenshots (trace s)"
proof -
  obtain r s1 where q: "queryAll drv sel s = (r, s1)"
    by (cases "queryAll drv sel s")
  have t1: "trace s1 = trace s @ [(QueryAll sel, \<not> isl r)]"
    using q unfolding queryAll_def by (rule perform_trace)
  show ?thesis
  proof (cases r)
    case (Inl e)
    with assms q show ?thesis by (simp add: fillInput_def bnd_def)
  next
    case (Inr els)
    show ?thesis
    proof (cases els)
      case Nil
      with assms q Inr show ?thesis by (simp add: fillInput_def bnd_def ret_def)
    next
      case (Cons el rest)
      obtain r2 s2 where c: "typeText drv el v s1 = (r2, s2)"
        by (cases "typeText drv el v s1")
      have t2: "trace s2 = trace s1 @ [(Type el v, \<not> isl r2)]"
        using c unfolding typeText_def by (rule perform_trace)
      obtain s3 where sh: "takeScreenshot cfg drv (js ''error-filling-'' @ replace_ws name) s2 = (Inr (), s3)"
        using takeScreenshot_cases by blast
      from assms q Inr Cons c sh have "s' = s2"
        by (cases r2) (simp_all add: fillInput_def bnd_def thn_def try_catch_def ret_def)
      then show ?thesis
        using t1 t2 by (simp add: screenshots_append)
    qed
  qed
qed

text \<open>
  Claim C6, as amended. Let the earlier steps of \<open>login\<close> succeed (the navigation, the
  click on the member log-in button, the two inputs) and let the selector of the submit
  button match no element. Let screenshots be enabled, the page have a viewport of
  positive size, and the driver's screenshot call succeed. Then \<open>login\<close> throws the error
  \<open>Could not find login button\<close>, and exactly one screenshot, \<open>login-error.png\<close>, has
  been written between the start of \<open>login\<close> and the error leaving it.
\<close>

theorem login_missing_submit_button:
  assumes nav: "goto drv (loginUrl cfg) s = (Inr (), s1)"
    and member: "clickElement cfg drv (js ''button.btn-login'') (js ''member log in button'')
                   (snd (wait drv 3000 s1)) = (Inr True, s2)"
    and em: "fillInput cfg drv sel_email (email cfg) (js ''email field'')
               (snd (wait drv 2000 s2)) = (Inr True, s3)"
    and pw: "fillInput cfg drv sel_password (password cfg) (js ''password field'') s3
               = (Inr True, s4)"
    and submit: "queryAll drv sel_submit s4 = (Inr [], s5)"
    and enabled: "enableScreenshots cfg"
    and vp: "viewport drv s5 = (Inr (Some (width, height)), s6)"
    and size: "0 < width" "0 < height"
    and shot: "screenshot drv (screenshotsDir cfg @ js ''/'' @ js ''login-error'' @ js ''.png'') s6
                 = (Inr (), s7)"
  shows "login cfg drv s = (Inl (Error (js ''Could not find login button'')), s7)
       \<and> screenshots (trace s7)
           = screenshots (trace s) @ [screenshotsDir cfg @ js ''/'' @ js ''login-error'' @ js ''.png'']"
proof -
  define t1 where "t1 = snd (wait drv 3000 s1)"
  define t2 where "t2 = snd (wait drv 2000 s2)"
  have w1: "wait drv 3000 s1 = (Inr (), t1)"
    by (simp add: t1_def wait_def)
  have w2: "wait drv 2000 s2 = (Inr (), t2)"
    by (simp add: t2_def wait_def)
  have member': "clickElement cfg drv (js ''button.btn-login'') (js ''member log in button'') t1
                   = (Inr True, s2)"
    using member by (simp add: t1_def)
  have em': "fillInput cfg drv sel_email (email cfg) (js ''email field'') t2 = (Inr True, s3)"
    using em by (simp add: t2_def)
  have click2: "clickElement cfg drv sel_submit (js ''login button'') s4 = (Inr False, s5)"
    by (simp add: clickElement_def bnd_def submit ret_def)
  have body: "login_body cfg drv s = (Inl (Error (js ''Could not find login button'')), s5)"
    unfolding login_body_def
    by (simp add: thn_def bnd_def nav w1 member' w2 em' pw click2 throw_def)
  have ts: "takeScreenshot cfg drv (js ''login-error'') s5 = (Inr (), s7)"
    using enabled size by (simp add: takeScreenshot_def try_catch_def bnd_def vp shot)
  have run: "login cfg drv s = (Inl (Error (js ''Could not find login button'')), s7)"
    by (simp add: login_def try_catch_def body thn_def bnd_def ts throw_def)
  have "trace s1 = trace s @ [(Goto (loginUrl cfg), True)]"
    using nav unfolding goto_def by (auto dest: perform_trace)
  then have a1: "screenshots (trace s1) = screenshots (trace s)"
    by (simp add: screenshots_append)
  have a2: "screenshots (trace s2) = screenshots (trace s1)"
    using clickElement_true_screenshots [OF member] by (simp add: wait_trace screenshots_append)
  have a3: "screenshots (trace s3) = screenshots (trace s2)"
    using fillInput_true_screenshots [OF em] by (simp add: wait_trace screenshots_append)
  have a4: "screenshots (trace s4) = screenshots (trace s3)"
    using pw by (rule fillInput_true_screenshots)
  have "trace s5 = trace s4 @ [(QueryAll sel_submit, True)]"
    using submit unfolding queryAll_def by (auto dest: perform_trace)
  then have a5: "screenshots (trace s5) = screenshots (trace s4)"
    by (simp add: screenshots_append)
  have "trace s6 = trace s5 @ [(Viewport, True)]"
    using vp unfolding viewport_def by (auto dest: perform_trace)
  then have a6: "screenshots (trace s6) = screenshots (trace s5)"
    by (simp add: screenshots_append)
  have "trace s7 = trace s6 @ [(Screenshot (screenshotsDir cfg @ js ''/'' @ js ''login-error'' @ js ''.png''), True)]"
    using shot unfolding screenshot_def by (auto dest: perform_trace)
  then have a7: "screenshots (trace s7)
      = screenshots (trace s6) @ [screenshotsDir cfg @ js ''/'' @ js ''login-error'' @ js ''.png'']"
    by (simp add: screenshots_append)
  show ?thesis
    using run a1 a2 a3 a4 a5 a6 a7 by simp
qed


lemmas auth_defs = login_def login_body_def clickElement_def fillInput_def takeScreenshot_def
  isLoggedIn_def isLoggedIn_body_def

theorem login_missing_submit_button_witness:
  "fst (login test_config sim_driver (start (site (js ''3 desks available'') [] (\<lambda>c. False))))
     = Inl (Error (js ''Could not find login button''))
   \<and> screenshots (trace (snd (login test_config sim_driver
         (start (site (js ''3 desks available'') [] (\<lambda>c. False))))))
     = [js ''./screenshots/login-error.png'']"
proof -
  let ?P = "site (js ''3 desks available'') [] (\<lambda>c. False)"
  obtain s1 where s1: "goto sim_driver (loginUrl test_config) (start ?P) = (Inr (), s1)"
    and p1: "world s1 = ?P"
    by (simp add: sim_defs)
  obtain s2 where s2: "clickElement test_config sim_driver (js ''button.btn-login'')
        (js ''member log in button'') (snd (wait sim_driver 3000 s1)) = (Inr True, s2)"
    and p2: "world s2 = ?P"
    using p1 by (simp add: auth_defs prog_defs sim_defs str_defs)
  obtain s3 where s3: "fillInput test_config sim_driver sel_email (email test_config)
        (js ''email field'') (snd (wait sim_driver 2000 s2)) = (Inr True, s3)"
    and p3: "world s3 = ?P"
    using p2 by (simp add: auth_defs prog_defs sim_defs str_defs)
  obtain s4 where s4: "fillInput test_config sim_driver sel_password (password test_config)
        (js ''password field'') s3 = (Inr True, s4)"
    and p4: "world s4 = ?P"
    using p3 by (simp add: auth_defs prog_defs sim_defs str_defs)
  obtain s5 where s5: "queryAll sim_driver sel_submit s4 = (Inr [], s5)"
    and p5: "world s5 = ?P"
    using p4 by (simp add: sim_defs str_defs)
  obtain s6 where s6: "viewport sim_driver s5 = (Inr (Some (1280, 800)), s6)"
    and p6: "world s6 = ?P"
    using p5 by (simp add: sim_defs)
  obtain s7 where s7: "screenshot sim_driver
        (screenshotsDir test_config @ js ''/'' @ js ''login-error'' @ js ''.png'') s6 = (Inr (), s7)"
    using p6 by (simp add: sim_defs)
  have en: "enableScreenshots test_config"
    by (simp add: test_config_def)
  from login_missing_submit_button [OF s1 s2 s3 s4 s5 en s6 _ _ s7] show ?thesis
    by (simp add: start_def test_config_def js_def)
qed

text \<open>
  The claim as stated asks only for screenshots to be enabled. On the page below all
  earlier steps succeed and there is no submit button, but the driver's screenshot call
  throws: \<open>takeScreenshot\<close> catches that, \<open>login\<close> throws its error, and no screenshot
  has been captured.
\<close>

theorem login_screenshot_failure_counterexample:
  "enableScreenshots test_config
   \<and> fst (login test_config sim_driver
          (start (site (js ''3 desks available'') []
                   (\<lambda>c. case c of Screenshot path \<Rightarrow> True | _ \<Rightarrow> False))))
     = Inl (Error (js ''Could not find login button''))
   \<and> trace (snd (login test_config sim_driver
          (start (site (js ''3 desks available'') []
                   (\<lambda>c. case c of Screenshot path \<Rightarrow> True | _ \<Rightarrow> False)))))
     = [(Goto (loginUrl test_config), True), (Sleep 3000, True),
        (QueryAll (js ''button.btn-login''), True), (ClickNav 5, True), (Sleep 2000, True),
        (QueryAll sel_email, True), (Type 6 (email test_config), True),
        (QueryAll sel_password, True), (Type 7 (password test_config), True),
        (QueryAll sel_submit, True), (Viewport, True),
        (Screenshot (js ''./screenshots/login-error.png''), False)]
   \<and> screenshots (trace (snd (login test_config sim_driver
          (start (site (js ''3 desks available'') []
                   (\<lambda>c. case c of Screenshot path \<Rightarrow> True | _ \<Rightarrow> False))))))
     = []"
  by (simp add: auth_defs prog_defs sim_defs str_defs)

section \<open>The run and its exit status\<close>


text \<open>
  An exception of the login, of the navigation, or of the check of any date is an
  exception of \<open>collect_results\<close>, the part of the run before the notification.
\<close>

lemma collect_results_login_throws:
  assumes "setViewport drv 1280 800 s = (Inr (), s1)" and "login cfg drv s1 = (Inl e, s2)"
  shows "collect_results cfg rt drv s = (Inl e, s2)"
  using assms by (simp add: collect_results_def thn_def bnd_def)

lemma collect_results_navigation_throws:
  assumes "setViewport drv 1280 800 s = (Inr (), s1)" and "login cfg drv s1 = (Inr (), s2)"
    and "isLoggedIn cfg drv s2 = (Inr True, s3)"
    and "navigateToBooking cfg rt drv s3 = (Inl e, s4)"
  shows "collect_results cfg rt drv s = (Inl e, s4)"
  using assms by (simp add: collect_results_def thn_def bnd_def)

lemma check_dates_throws:
  assumes "check_dates cfg rt drv before s = (Inr results, s1)"
    and "checkAvailability cfg rt drv d s1 = (Inl e, s2)"
  shows "check_dates cfg rt drv (before @ d # after) s = (Inl e, s2)"
  using assms
proof (induction before arbitrary: s results)
  case Nil
  then show ?case by (simp add: bnd_def ret_def)
next
  case (Cons b before)
  from Cons.prems(1) obtain r sa sb rs where
    b: "checkAvailability cfg rt drv b s = (Inr r, sa)"
    and wt: "wait drv 2000 sa = (Inr (), sb)"
    and rest: "check_dates cfg rt drv before sb = (Inr rs, s1)"
    by (auto simp: bnd_def thn_def ret_def wait_def split: prod.splits sum.splits)
  have "check_dates cfg rt drv (before @ d # after) sb = (Inl e, s2)"
    using rest Cons.prems(2) by (rule Cons.IH)
  then show ?case
    by (simp add: bnd_def thn_def b wt)
qed

lemma collect_results_check_throws:
  assumes "setViewport drv 1280 800 s = (Inr (), s1)" and "login cfg drv s1 = (Inr (), s2)"
    and "isLoggedIn cfg drv s2 = (Inr True, s3)"
    and "navigateToBooking cfg rt drv s3 = (Inr (), s4)"
    and "getNextTuesdayAndThursday rt (d_now drv (world s4)) = Inr nextDates"
    and "check_dates cfg rt drv nextDates s4 = (Inl e, s5)"
  shows "collect_results cfg rt drv s = (Inl e, s5)"
  using assms by (simp add: collect_results_def thn_def bnd_def now_def of_result_def)






end
